theory Spec2Isabelle
  imports Main "HOL-Library.Word"
begin

section \<open>Errors\<close>

text \<open>
  The exceptions of \<^verbatim>\<open>exception.hpp\<close> that the modelled functions throw, as values. The
  label and destination strings some of them carry for the message are dropped.
  Some constructors stand for failures that happen outside the repository's own code:
  \<^item> \<open>expr_failure\<close>: the JavaScript host throws while compiling or running a snippet;
  \<^item> \<open>bad_cast\<close>: an hx2a \<^verbatim>\<open>checked_cast\<close> is applied to an object of another class;
  \<^item> \<open>undefined_behaviour\<close>: an end iterator is dereferenced or \<^verbatim>\<open>back()\<close> is called on an
    empty vector; C++ gives such a step no meaning, and the model stops there with this value.
  Assertions (\<^verbatim>\<open>HX2A_ASSERT\<close>) are not modelled as failures.
\<close>

datatype error =
    function_call_out_of_bounds
  | function_has_no_code
  | function_is_null
  | function_parameter_does_not_exist
  | function_parameter_refers_to_question_with_different_loop_nest
  | function_parameter_refers_to_self
  | function_parameter_refers_to_subsequent_question
  | question_begin_loop_has_no_operand
  | question_begin_loop_refers_to_question_with_different_loop_nest
  | question_begin_loop_refers_to_unanswerable_question
  | question_begin_loop_refers_to_unknown_question
  | question_begin_loop_variable_is_invalid
  | question_label_is_a_duplicate
  | question_label_is_invalid
  | question_localization_does_not_exist
  | question_localization_for_template_does_not_exist
  | question_localization_is_duplicate
  | question_loop_is_not_balanced
  | question_loop_is_not_closed
  | question_loop_logic_error
  | question_loop_variable_unknown
  | source_question_argument_does_not_exist
  | source_question_begin_loop_transitions_to_begin_loop
  | source_question_contains_null_option
  | source_question_contains_null_transition
  | option_localization_label_is_empty
  | source_question_has_invalid_options
  | source_question_text_is_missing
  | source_question_transition_catch_all_is_not_last
  | source_question_transition_condition_is_incorrect
  | source_question_transition_does_not_exist
  | source_question_transition_is_missing
  | source_question_transitions_across_loop
  | source_question_transitions_lack_catch_all
  | source_question_transitions_to_itself
  | source_question_transitions_to_previous_question
  | source_questionnaire_contains_null_question
  | source_questionnaire_has_no_questions
  | source_questionnaire_name_is_empty
  | template_question_does_not_exist
  | questionnaire_is_locked
  | transition_has_both_condition_and_code
  | interview_is_already_completed
  | interview_is_already_started
  | interview_is_not_started
  | questionnaire_localization_does_not_exist
  | answer_is_incorrect
  | answer_index_does_not_exist
  | selection_is_invalid
  | internal_error
  | expr_failure
  | bad_cast
  | undefined_behaviour

section \<open>Question bodies and their localizations (ontology.hpp)\<close>

text \<open>
  A \<^verbatim>\<open>function\<close> (here \<open>js_function\<close>) is a JavaScript snippet with the questions whose answers it takes as
  parameters. A question is referred to by its position in the questionnaire, which is what
  the C++ links and pointers to questions denote here.
\<close>

record js_function =
  fn_parameters :: "nat list"
  fn_code :: string

text \<open>
  The class hierarchy under \<^verbatim>\<open>question_body\<close>: every body has text functions and a style;
  the variants add \<^verbatim>\<open>_has_comment\<close>, \<^verbatim>\<open>_optional\<close>, \<^verbatim>\<open>_options\<close> (one \<^verbatim>\<open>has_comment\<close> flag per
  option), \<^verbatim>\<open>_randomize\<close> and \<^verbatim>\<open>_limit\<close>.
\<close>

datatype question_body_variant =
    question_body_message
  | question_body_input (has_comment: bool) (is_optional: bool)
  | question_body_select (randomize: bool) (has_comment: bool) (options: "bool list")
  | question_body_select_at_most (randomize: bool) (has_comment: bool) (options: "bool list") (limit: nat)
  | question_body_select_limit (randomize: bool) (has_comment: bool) (options: "bool list") (limit: nat)
  | question_body_rank_at_most (randomize: bool) (has_comment: bool) (options: "bool list") (limit: nat)
  | question_body_rank_limit (randomize: bool) (has_comment: bool) (options: "bool list") (limit: nat)

record question_body =
  text_functions :: "js_function list"
  style :: string
  variant :: question_body_variant

text \<open>\<^verbatim>\<open>question_body::can_be_final\<close>: only the message body overrides it to true.\<close>

fun body_can_be_final :: "question_body \<Rightarrow> bool" where
  "body_can_be_final qb = (case variant qb of question_body_message \<Rightarrow> True | _ \<Rightarrow> False)"

record option_localization =
  ol_option :: nat
  ol_label :: string
  ol_comment_label :: string

datatype question_localization_body =
    question_localization_body_message (get_text: string)
  | question_localization_body_input (get_text: string) (get_comment_label: string)
  | question_localization_body_select (get_text: string) (get_comment_label: string)
      (get_options: "option_localization list")
  | question_localization_body_select_at_most (get_text: string) (get_comment_label: string)
      (get_options: "option_localization list")
  | question_localization_body_select_limit (get_text: string) (get_comment_label: string)
      (get_options: "option_localization list")
  | question_localization_body_rank_at_most (get_text: string) (get_comment_label: string)
      (get_options: "option_localization list")
  | question_localization_body_rank_limit (get_text: string) (get_comment_label: string)
      (get_options: "option_localization list")

text \<open>
  \<^verbatim>\<open>checked_cast<question_localization_body_with_options>\<close>: the five classes with options pass
  and give their option list; the message and input bodies are of another class.
\<close>

fun cast_with_options :: "question_localization_body \<Rightarrow> error + option_localization list" where
  "cast_with_options (question_localization_body_message t) = Inl bad_cast"
| "cast_with_options (question_localization_body_input t c) = Inl bad_cast"
| "cast_with_options qlb = Inr (get_options qlb)"

text \<open>
  \<^verbatim>\<open>question_localization_body_with_options::find_option_localization(size_t)\<close>: an index at
  or beyond the number of options throws \<^verbatim>\<open>selection_is_invalid\<close>; otherwise the list is walked
  down to the option.
\<close>

fun walk_options :: "option_localization list \<Rightarrow> nat \<Rightarrow> error + option_localization" where
  "walk_options [] index = Inl internal_error"
| "walk_options (cl # cls) index = (if index = 0 then Inr cl else walk_options cls (index - 1))"

definition find_option_localization ::
  "option_localization list \<Rightarrow> nat \<Rightarrow> error + option_localization" where
  "find_option_localization opts index =
     (if length opts \<le> index then Inl selection_is_invalid else walk_options opts index)"

section \<open>Answer payloads and their compilation (payloads.hpp, payloads.cpp)\<close>

record choice_payload =
  cp_index :: nat
  cp_comment :: string

datatype answer_payload =
    answer_message_payload
  | answer_input_payload string string
  | answer_select_payload "choice_payload option" string
  | answer_select_at_most_payload "choice_payload list" string
  | answer_select_limit_payload "choice_payload list" string
  | answer_rank_at_most_payload "choice_payload list" string
  | answer_rank_limit_payload "choice_payload list" string

record choice =
  c_option_localization :: option_localization
  c_index :: nat
  c_comment :: string

datatype answer_body =
    answer_body_message
  | answer_body_input string string
  | answer_body_select choice string
  | answer_body_select_at_most "choice list" string
  | answer_body_select_limit "choice list" string
  | answer_body_rank_at_most "choice list" string
  | answer_body_rank_limit "choice list" string

text \<open>
  \<^verbatim>\<open>answer_multiple_choices_payload::shared_compile\<close>: one \<^verbatim>\<open>choice\<close> per payload choice, in
  order, each looked up by its index; the first index out of range throws.
\<close>

fun shared_compile_choices ::
  "option_localization list \<Rightarrow> choice_payload list \<Rightarrow> error + choice list" where
  "shared_compile_choices opts [] = Inr []"
| "shared_compile_choices opts (cp # cps) =
     (case find_option_localization opts (cp_index cp) of
        Inl e \<Rightarrow> Inl e
      | Inr ol \<Rightarrow>
          (case shared_compile_choices opts cps of
             Inl e \<Rightarrow> Inl e
           | Inr cs \<Rightarrow>
               Inr (\<lparr>c_option_localization = ol, c_index = cp_index cp, c_comment = cp_comment cp\<rparr> # cs)))"

definition shared_compile ::
  "question_localization_body \<Rightarrow> choice_payload list \<Rightarrow> error + choice list" where
  "shared_compile qlb cps =
     (case cast_with_options qlb of
        Inl e \<Rightarrow> Inl e
      | Inr opts \<Rightarrow> shared_compile_choices opts cps)"

text \<open>
  The \<^verbatim>\<open>checked_cast\<close> of the question body to the class the payload expects, giving the
  limit.
\<close>

fun cast_select_at_most :: "question_body \<Rightarrow> error + nat" where
  "cast_select_at_most qb =
     (case variant qb of question_body_select_at_most r h os l \<Rightarrow> Inr l | _ \<Rightarrow> Inl bad_cast)"

fun cast_select_limit :: "question_body \<Rightarrow> error + nat" where
  "cast_select_limit qb =
     (case variant qb of question_body_select_limit r h os l \<Rightarrow> Inr l | _ \<Rightarrow> Inl bad_cast)"

fun cast_rank_at_most :: "question_body \<Rightarrow> error + nat" where
  "cast_rank_at_most qb =
     (case variant qb of question_body_rank_at_most r h os l \<Rightarrow> Inr l | _ \<Rightarrow> Inl bad_cast)"

fun cast_rank_limit :: "question_body \<Rightarrow> error + nat" where
  "cast_rank_limit qb =
     (case variant qb of question_body_rank_limit r h os l \<Rightarrow> Inr l | _ \<Rightarrow> Inl bad_cast)"

text \<open>
  The virtual \<^verbatim>\<open>answer_payload::compile(question_body, question_localization_body)\<close>, one
  equation per overriding class, with the checks in the order of the source.
\<close>

fun answer_compile ::
  "answer_payload \<Rightarrow> question_body \<Rightarrow> question_localization_body \<Rightarrow> error + answer_body" where
  "answer_compile answer_message_payload qb qlb = Inr answer_body_message"
| "answer_compile (answer_input_payload inp com) qb qlb = Inr (answer_body_input inp com)"
| "answer_compile (answer_select_payload ch com) qb qlb =
     (case ch of
        None \<Rightarrow> Inl answer_is_incorrect
      | Some cp \<Rightarrow>
          (case cast_with_options qlb of
             Inl e \<Rightarrow> Inl e
           | Inr opts \<Rightarrow>
               if cp_index cp \<ge> length opts then Inl answer_is_incorrect
               else (case find_option_localization opts (cp_index cp) of
                       Inl e \<Rightarrow> Inl e
                     | Inr ol \<Rightarrow>
                         Inr (answer_body_select
                               \<lparr>c_option_localization = ol, c_index = cp_index cp,
                                c_comment = cp_comment cp\<rparr> com))))"
| "answer_compile (answer_select_at_most_payload cps com) qb qlb =
     (case cast_select_at_most qb of
        Inl e \<Rightarrow> Inl e
      | Inr l \<Rightarrow>
          if length cps > l then Inl answer_is_incorrect
          else (case shared_compile qlb cps of
                  Inl e \<Rightarrow> Inl e
                | Inr cs \<Rightarrow> Inr (answer_body_select_at_most cs com)))"
| "answer_compile (answer_select_limit_payload cps com) qb qlb =
     (case cast_select_limit qb of
        Inl e \<Rightarrow> Inl e
      | Inr l \<Rightarrow>
          if length cps \<noteq> l then Inl answer_is_incorrect
          else (case shared_compile qlb cps of
                  Inl e \<Rightarrow> Inl e
                | Inr cs \<Rightarrow> Inr (answer_body_select_limit cs com)))"
| "answer_compile (answer_rank_at_most_payload cps com) qb qlb =
     (case cast_rank_at_most qb of
        Inl e \<Rightarrow> Inl e
      | Inr l \<Rightarrow>
          if length cps > l then Inl answer_is_incorrect
          else (case shared_compile qlb cps of
                  Inl e \<Rightarrow> Inl e
                | Inr cs \<Rightarrow> Inr (answer_body_rank_at_most cs com)))"
| "answer_compile (answer_rank_limit_payload cps com) qb qlb =
     (case cast_rank_limit qb of
        Inl e \<Rightarrow> Inl e
      | Inr l \<Rightarrow>
          if length cps \<noteq> l then Inl answer_is_incorrect
          else (case shared_compile qlb cps of
                  Inl e \<Rightarrow> Inl e
                | Inr cs \<Rightarrow> Inr (answer_body_rank_limit cs com)))"

section \<open>Questions, questionnaires and questionnaire localizations (ontology.hpp)\<close>

text \<open>
  A transition owns an optional condition and links to its destination question. The
  one-argument constructor leaves the condition null; the two-argument one stores the function
  it is given, whose code may be empty.
\<close>

record transition =
  condition :: "js_function option"
  destination :: nat

text \<open>
  A template question lives in the template library; the model keeps its document identity,
  its label and its body.
\<close>

record template_question =
  tq_id :: nat
  tq_label :: string
  tq_body :: question_body

text \<open>The four concrete question classes, and the fields shared by all (\<^verbatim>\<open>class question\<close>).\<close>

datatype question_kind =
    question_with_body question_body
  | question_from_template template_question
  | question_begin_loop (operand_question: nat) (get_variable: string) (get_operand: string)
  | question_end_loop

record question =
  label :: string
  transitions :: "transition list"
  kind :: question_kind

datatype loop_type_t = regular | begin_loop | end_loop

fun get_loop_type :: "question \<Rightarrow> loop_type_t" where
  "get_loop_type q =
     (case kind q of
        question_begin_loop oq v opnd \<Rightarrow> begin_loop
      | question_end_loop \<Rightarrow> end_loop
      | _ \<Rightarrow> regular)"

text \<open>
  \<^verbatim>\<open>supports_localization\<close> is false in \<^verbatim>\<open>class question\<close> and overridden to true only by
  \<^verbatim>\<open>question_with_body\<close>; \<^verbatim>\<open>supports_answer\<close> is true except for the two loop classes.
\<close>

fun supports_localization :: "question \<Rightarrow> bool" where
  "supports_localization q = (case kind q of question_with_body qb \<Rightarrow> True | _ \<Rightarrow> False)"

fun supports_answer :: "question \<Rightarrow> bool" where
  "supports_answer q =
     (case kind q of
        question_begin_loop oq v opnd \<Rightarrow> False
      | question_end_loop \<Rightarrow> False
      | _ \<Rightarrow> True)"

fun can_be_final :: "question \<Rightarrow> bool" where
  "can_be_final q =
     (case kind q of
        question_with_body qb \<Rightarrow> body_can_be_final qb
      | question_from_template tq \<Rightarrow> body_can_be_final (tq_body tq)
      | _ \<Rightarrow> False)"

definition is_final :: "question \<Rightarrow> bool" where
  "is_final q = (transitions q = [] \<and> can_be_final q)"

text \<open>
  \<^verbatim>\<open>question::get_body\<close>: the dummy of the base class asserts false; the model gives no body
  for the loop questions.
\<close>

fun get_body :: "question \<Rightarrow> question_body option" where
  "get_body q =
     (case kind q of
        question_with_body qb \<Rightarrow> Some qb
      | question_from_template tq \<Rightarrow> Some (tq_body tq)
      | _ \<Rightarrow> None)"

text \<open>
  The questionnaire: its questions in order, the lock, and the change count, an
  \<^verbatim>\<open>unsigned int\<close> that starts at 1 and that \<^verbatim>\<open>touch\<close> increments.
\<close>

record questionnaire =
  questions :: "question list"
  locked :: bool
  change_count :: "32 word"

definition make_questionnaire :: questionnaire where
  "make_questionnaire = \<lparr>questions = [], locked = False, change_count = 1\<rparr>"

definition push_question_back :: "questionnaire \<Rightarrow> question \<Rightarrow> error + questionnaire" where
  "push_question_back qq q =
     (if locked qq then Inl questionnaire_is_locked
      else Inr (qq\<lparr>questions := questions qq @ [q], change_count := change_count qq + 1\<rparr>))"

text \<open>
  A question localization links to its question and owns a body. A questionnaire localization
  stores the change count of the questionnaire at its last successful check (0 when built).
\<close>

record question_localization =
  ql_question :: nat
  ql_body :: question_localization_body

record questionnaire_localization =
  questionnaire_change_count :: "32 word"
  language :: nat
  questions_localizations :: "question_localization list"

definition make_questionnaire_localization :: "nat \<Rightarrow> questionnaire_localization" where
  "make_questionnaire_localization lang =
     \<lparr>questionnaire_change_count = 0, language = lang, questions_localizations = []\<rparr>"

record template_question_localization =
  tql_template_question :: template_question
  tql_language :: nat
  tql_body :: question_localization_body

text \<open>
  The template library is a database index outside the questionnaire:
  \<^verbatim>\<open>template_question_localization::find(tq, lang)\<close> is a parameter of the model, from the
  identity of the template question and the language.
\<close>

type_synonym template_library = "nat \<Rightarrow> nat \<Rightarrow> template_question_localization option"

text \<open>
  \<^verbatim>\<open>questionnaire_localization::dump\<close>: the localizations are entered in a map by question;
  a second localization of the same question throws.
\<close>

fun dump_localizations ::
  "question_localization list \<Rightarrow> (nat \<times> question_localization) list \<Rightarrow>
   error + (nat \<times> question_localization) list" where
  "dump_localizations [] m = Inr m"
| "dump_localizations (ql # qls) m =
     (if map_of m (ql_question ql) \<noteq> None then Inl question_localization_is_duplicate
      else dump_localizations qls (m @ [(ql_question ql, ql)]))"

text \<open>
  The loop of \<^verbatim>\<open>force_check\<close> over the questions of the questionnaire, from position \<open>i\<close>.
\<close>

fun check_questions ::
  "template_library \<Rightarrow> nat \<Rightarrow> (nat \<times> question_localization) list \<Rightarrow> nat \<Rightarrow> question list \<Rightarrow>
   error + unit" where
  "check_questions lib lang m i [] = Inr ()"
| "check_questions lib lang m i (q # qs) =
     (if map_of m i = None then
        (if supports_localization q then Inl question_localization_does_not_exist
         else (case kind q of
                 question_from_template tq \<Rightarrow>
                   (if lib (tq_id tq) lang = None
                    then Inl question_localization_for_template_does_not_exist
                    else check_questions lib lang m (Suc i) qs)
               | _ \<Rightarrow> check_questions lib lang m (Suc i) qs))
      else check_questions lib lang m (Suc i) qs)"

definition force_check ::
  "template_library \<Rightarrow> questionnaire \<Rightarrow> questionnaire_localization \<Rightarrow> error + unit" where
  "force_check lib qq qql =
     (case dump_localizations (questions_localizations qql) [] of
        Inl e \<Rightarrow> Inl e
      | Inr m \<Rightarrow> check_questions lib (language qql) m 0 (questions qq))"

text \<open>
  \<^verbatim>\<open>questionnaire_localization::check\<close>: returns at once when the stored count is the
  questionnaire's; otherwise runs \<^verbatim>\<open>force_check\<close> and, if that does not throw, stores the count.
\<close>

definition check ::
  "template_library \<Rightarrow> questionnaire \<Rightarrow> questionnaire_localization \<Rightarrow>
   error + questionnaire_localization" where
  "check lib qq qql =
     (if questionnaire_change_count qql = change_count qq then Inr qql
      else (case force_check lib qq qql of
              Inl e \<Rightarrow> Inl e
            | Inr u \<Rightarrow> Inr (qql\<lparr>questionnaire_change_count := change_count qq\<rparr>)))"

section \<open>Answers, history entries and the stack (ontology.hpp)\<close>

text \<open>
  JSON values as the expression host returns them. Numbers are kept as integers; the
  model never computes with them.
\<close>

datatype json =
    JNull
  | JBool bool
  | JNum int
  | JStr string
  | JArr "json list"
  | JObj "(string \<times> json) list"

text \<open>
  \<^verbatim>\<open>json::is_true\<close>, as the comment on \<^verbatim>\<open>transition::_condition\<close> describes it: true for the
  boolean true and for a number that is not zero.
\<close>

fun json_is_true :: "json \<Rightarrow> bool" where
  "json_is_true (JBool b) = b"
| "json_is_true (JNum n) = (n \<noteq> 0)"
| "json_is_true v = False"

text \<open>
  An answer is an anchor: \<open>a_id\<close> is its identity, by which the weak link of a begin-loop
  entry designates it. It links either to a question localization or to a template question
  localization together with the question from template, and owns its body. The
  geolocation is left out.
\<close>

datatype localizations =
    from_question_localization question_localization
  | from_template_localization template_question_localization nat

record answer =
  a_id :: nat
  a_localizations :: localizations
  a_ip_address :: string
  a_elapsed :: nat
  a_total_elapsed :: nat
  a_body :: answer_body

fun answer_get_question :: "answer \<Rightarrow> nat" where
  "answer_get_question a =
     (case a_localizations a of
        from_question_localization ql \<Rightarrow> ql_question ql
      | from_template_localization tql qft \<Rightarrow> qft)"

fun get_question_localization_body :: "answer \<Rightarrow> question_localization_body" where
  "get_question_localization_body a =
     (case a_localizations a of
        from_question_localization ql \<Rightarrow> ql_body ql
      | from_template_localization tql qft \<Rightarrow> tql_body tql)"

text \<open>
  The three entry classes of an interview's history. The begin-loop entry holds the begin
  loop, the identity of the loop operand answer (a weak link) and the index.
\<close>

datatype entry =
    entry_answer answer
  | entry_begin_loop nat nat nat
  | entry_end_loop nat

fun entry_get_loop_type :: "entry \<Rightarrow> loop_type_t" where
  "entry_get_loop_type (entry_answer a) = regular"
| "entry_get_loop_type (entry_begin_loop qbl loa i) = begin_loop"
| "entry_get_loop_type (entry_end_loop qel) = end_loop"

fun entry_get_question :: "entry \<Rightarrow> nat" where
  "entry_get_question (entry_answer a) = answer_get_question a"
| "entry_get_question (entry_begin_loop qbl loa i) = qbl"
| "entry_get_question (entry_end_loop qel) = qel"

text \<open>
  A stack frame and the stack. The cache \<^verbatim>\<open>_loop_variable_value\<close> of a frame is not kept: the
  value is computed at each use.
\<close>

record the_stack_frame =
  sf_question_begin_loop :: nat
  sf_loop_operand_answer :: answer
  sf_loop_operand :: json
  sf_loop_operand_size :: nat
  sf_index :: nat
  sf_answers_by_question_map :: "nat \<rightharpoonup> answer"

record the_stack =
  ts_vector :: "the_stack_frame list"
  ts_answers_by_question_map :: "nat \<rightharpoonup> answer"

definition empty_stack :: the_stack where
  "empty_stack = \<lparr>ts_vector = [], ts_answers_by_question_map = Map.empty\<rparr>"

text \<open>
  The expression host and the serializers, which are not part of the repository, are
  parameters of the model:
  \<^item> \<open>slot_js_run code args\<close>: \<^verbatim>\<open>slot_js::run\<close> on a snippet after the variables \<open>args\<close> were
    pushed on it, \<open>None\<close> when it throws;
  \<^item> \<open>slot_js_compile\<close>: whether \<^verbatim>\<open>slot_js::compile\<close> accepts a snippet;
  \<^item> \<open>v8_execute\<close>: \<^verbatim>\<open>v8::execute\<close> on a program text, \<open>None\<close> when it throws;
  \<^item> \<open>print_json\<close>: \<^verbatim>\<open>operator<<\<close> on a JSON value;
  \<^item> \<open>answer_data_json\<close>: the payload of \<^verbatim>\<open>make_answer_data\<close>, serialized, read back and
    stripped of its type tag;
  \<^item> \<open>localized_answer_data_json\<close>: the same for \<^verbatim>\<open>make_localized_answer_data(ts, lang)\<close>,
    which computes the text of the answered question and can therefore throw;
  \<^item> \<open>language_str2\<close>: the two-letter code of \<^verbatim>\<open>language::get_info\<close>, if the language is known.
\<close>

record expr_host =
  slot_js_run :: "string \<Rightarrow> (string \<times> json) list \<Rightarrow> json option"
  slot_js_compile :: "string \<Rightarrow> bool"
  v8_execute :: "string \<Rightarrow> json option"
  print_json :: "json \<Rightarrow> string"
  answer_data_json :: "answer \<Rightarrow> json"
  localized_answer_data_json :: "answer \<Rightarrow> the_stack \<Rightarrow> nat \<Rightarrow> error + json"
  language_str2 :: "nat \<Rightarrow> string option"

text \<open>
  A link to a question is followed in the questionnaire's list. A position outside the list
  denotes no question; the model then uses the empty label.
\<close>

definition get_label :: "question list \<Rightarrow> nat \<Rightarrow> string" where
  "get_label qs q = (if q < length qs then label (qs ! q) else [])"

text \<open>\<^verbatim>\<open>the_stack::find_answer\<close>: the frames from the innermost, then the top-level map.\<close>

fun find_answer_frames :: "the_stack_frame list \<Rightarrow> nat \<Rightarrow> answer option" where
  "find_answer_frames [] q = None"
| "find_answer_frames (f # fs) q =
     (case sf_answers_by_question_map f q of
        Some a \<Rightarrow> Some a
      | None \<Rightarrow> find_answer_frames fs q)"

definition find_answer :: "the_stack \<Rightarrow> nat \<Rightarrow> answer option" where
  "find_answer ts q =
     (case find_answer_frames (rev (ts_vector ts)) q of
        Some a \<Rightarrow> Some a
      | None \<Rightarrow> ts_answers_by_question_map ts q)"

text \<open>\<^verbatim>\<open>the_stack::replace_answer\<close>: in the innermost frame, or in the top-level map.\<close>

definition replace_answer :: "the_stack \<Rightarrow> answer \<Rightarrow> the_stack" where
  "replace_answer ts a =
     (if ts_vector ts = []
      then ts\<lparr>ts_answers_by_question_map := (ts_answers_by_question_map ts)(answer_get_question a \<mapsto> a)\<rparr>
      else ts\<lparr>ts_vector := butlast (ts_vector ts) @
             [(last (ts_vector ts))\<lparr>sf_answers_by_question_map :=
                 (sf_answers_by_question_map (last (ts_vector ts)))(answer_get_question a \<mapsto> a)\<rparr>]\<rparr>)"

section \<open>Loop operands (ontology.cpp)\<close>

text \<open>
  \<^verbatim>\<open>inject_loop_operand\<close> writes \<^verbatim>\<open>let LABEL=VALUE;OPERAND;\<close> where the value is the localized
  answer data of the loop operand answer and the label is the one of the answered question.
\<close>

definition inject_loop_operand ::
  "expr_host \<Rightarrow> question list \<Rightarrow> the_stack \<Rightarrow> nat \<Rightarrow> string \<Rightarrow> answer \<Rightarrow> error + string" where
  "inject_loop_operand h qs ts lang operand loa =
     (case localized_answer_data_json h loa ts lang of
        Inl e \<Rightarrow> Inl e
      | Inr v \<Rightarrow>
          Inr (''let '' @ get_label qs (answer_get_question loa) @ ''='' @ print_json h v @ '';'' @
               operand @ '';''))"

definition compute_loop_operand ::
  "expr_host \<Rightarrow> question list \<Rightarrow> the_stack \<Rightarrow> nat \<Rightarrow> string \<Rightarrow> answer \<Rightarrow> error + json" where
  "compute_loop_operand h qs ts lang operand loa =
     (case inject_loop_operand h qs ts lang operand loa of
        Inl e \<Rightarrow> Inl e
      | Inr inject \<Rightarrow>
          (case v8_execute h (''{let R=null;'' @ inject @ ''if(R==undefined){null}else R}'') of
             None \<Rightarrow> Inl expr_failure
           | Some v \<Rightarrow> Inr v))"

text \<open>The decimal digits of an index, as \<^verbatim>\<open>operator<<\<close> writes a \<^verbatim>\<open>size_t\<close>.\<close>

definition digit_char :: "nat \<Rightarrow> char" where
  "digit_char d = char_of (48 + d)"

fun show_nat_fuel :: "nat \<Rightarrow> nat \<Rightarrow> string \<Rightarrow> string" where
  "show_nat_fuel 0 n acc = acc"
| "show_nat_fuel (Suc k) n acc =
     (if n < 10 then digit_char n # acc
      else show_nat_fuel k (n div 10) (digit_char (n mod 10) # acc))"

definition show_nat :: "nat \<Rightarrow> string" where
  "show_nat n = show_nat_fuel (Suc n) n []"

definition calculate_loop_variable_value ::
  "expr_host \<Rightarrow> question list \<Rightarrow> the_stack \<Rightarrow> nat \<Rightarrow> string \<Rightarrow> answer \<Rightarrow> nat \<Rightarrow> error + json" where
  "calculate_loop_variable_value h qs ts lang operand loa index =
     (case inject_loop_operand h qs ts lang operand loa of
        Inl e \<Rightarrow> Inl e
      | Inr inject \<Rightarrow>
          (case v8_execute h (''{let R=null;'' @ inject @ ''if(R==undefined){null}else{R=R['' @
                              show_nat index @ ''];if(R==undefined){null}else R}}'') of
             None \<Rightarrow> Inl expr_failure
           | Some v \<Rightarrow> Inr v))"

text \<open>
  The operand code and the variable of a begin loop, read through the link of a frame or of
  an entry.
\<close>

definition begin_loop_operand :: "question list \<Rightarrow> nat \<Rightarrow> string" where
  "begin_loop_operand qs qbl =
     (if qbl < length qs
      then (case kind (qs ! qbl) of question_begin_loop oq v opnd \<Rightarrow> opnd | _ \<Rightarrow> [])
      else [])"

definition begin_loop_variable :: "question list \<Rightarrow> nat \<Rightarrow> string" where
  "begin_loop_variable qs qbl =
     (if qbl < length qs
      then (case kind (qs ! qbl) of question_begin_loop oq v opnd \<Rightarrow> v | _ \<Rightarrow> [])
      else [])"

definition begin_loop_operand_question :: "question list \<Rightarrow> nat \<Rightarrow> nat option" where
  "begin_loop_operand_question qs qbl =
     (if qbl < length qs
      then (case kind (qs ! qbl) of question_begin_loop oq v opnd \<Rightarrow> Some oq | _ \<Rightarrow> None)
      else None)"

text \<open>
  The constructor of \<^verbatim>\<open>the_stack_frame\<close>: the loop operand is computed against the stack the
  frame is about to be pushed on; its size is the array's, and 0 when it is not an array.
\<close>

definition make_stack_frame ::
  "expr_host \<Rightarrow> question list \<Rightarrow> the_stack \<Rightarrow> nat \<Rightarrow> nat \<Rightarrow> answer \<Rightarrow> error + the_stack_frame" where
  "make_stack_frame h qs ts lang qbl loa =
     (case compute_loop_operand h qs ts lang (begin_loop_operand qs qbl) loa of
        Inl e \<Rightarrow> Inl e
      | Inr v \<Rightarrow>
          Inr \<lparr>sf_question_begin_loop = qbl, sf_loop_operand_answer = loa, sf_loop_operand = v,
               sf_loop_operand_size = (case v of JArr arr \<Rightarrow> length arr | _ \<Rightarrow> 0),
               sf_index = 0, sf_answers_by_question_map = Map.empty\<rparr>)"

text \<open>
  \<^verbatim>\<open>the_stack::process_begin_loop(lang, qbl, loa)\<close>: a frame is pushed unless the innermost
  frame already belongs to this begin loop.
\<close>

definition stack_process_begin_loop_with ::
  "expr_host \<Rightarrow> question list \<Rightarrow> nat \<Rightarrow> the_stack \<Rightarrow> nat \<Rightarrow> answer \<Rightarrow> error + the_stack" where
  "stack_process_begin_loop_with h qs lang ts qbl loa =
     (if ts_vector ts = [] \<or> sf_question_begin_loop (last (ts_vector ts)) \<noteq> qbl
      then (case make_stack_frame h qs ts lang qbl loa of
              Inl e \<Rightarrow> Inl e
            | Inr f \<Rightarrow> Inr (ts\<lparr>ts_vector := ts_vector ts @ [f]\<rparr>))
      else Inr ts)"

text \<open>
  \<^verbatim>\<open>the_stack::process_begin_loop(lang, qbl)\<close>: returns the loop operand answer if it was found
  and the first value of the loop variable is not null, after pushing the frame; otherwise
  returns null and leaves the stack as it is.
\<close>

definition stack_process_begin_loop ::
  "expr_host \<Rightarrow> question list \<Rightarrow> nat \<Rightarrow> the_stack \<Rightarrow> nat \<Rightarrow> error + (answer option \<times> the_stack)" where
  "stack_process_begin_loop h qs lang ts qbl =
     (case begin_loop_operand_question qs qbl of
        None \<Rightarrow> Inl internal_error
      | Some oq \<Rightarrow>
          (case find_answer ts oq of
             None \<Rightarrow> Inr (None, ts)
           | Some loa \<Rightarrow>
               (case calculate_loop_variable_value h qs ts lang (begin_loop_operand qs qbl) loa 0 of
                  Inl e \<Rightarrow> Inl e
                | Inr first \<Rightarrow>
                    if first = JNull then Inr (None, ts)
                    else (case stack_process_begin_loop_with h qs lang ts qbl loa of
                            Inl e \<Rightarrow> Inl e
                          | Inr ts' \<Rightarrow> Inr (Some loa, ts')))))"

text \<open>
  \<^verbatim>\<open>the_stack::process_end_loop\<close>: the index of the innermost frame is incremented; when it
  reaches the size of the loop operand the frame is popped and false is returned.
\<close>

definition stack_process_end_loop :: "the_stack \<Rightarrow> error + (bool \<times> the_stack)" where
  "stack_process_end_loop ts =
     (if ts_vector ts = [] then Inl undefined_behaviour
      else (let tsf = last (ts_vector ts) in
            if Suc (sf_index tsf) = sf_loop_operand_size tsf
            then Inr (False, ts\<lparr>ts_vector := butlast (ts_vector ts)\<rparr>)
            else Inr (True, ts\<lparr>ts_vector := butlast (ts_vector ts) @ [tsf\<lparr>sf_index := Suc (sf_index tsf)\<rparr>]\<rparr>)))"

text \<open>
  \<^verbatim>\<open>the_stack::get_loop_variable\<close>: the innermost frame whose begin loop has the variable of
  that name gives the value; with no such frame the value is null.
\<close>

fun get_loop_variable_frames ::
  "expr_host \<Rightarrow> question list \<Rightarrow> the_stack \<Rightarrow> nat \<Rightarrow> the_stack_frame list \<Rightarrow> string \<Rightarrow> error + json" where
  "get_loop_variable_frames h qs ts lang [] name = Inr JNull"
| "get_loop_variable_frames h qs ts lang (f # fs) name =
     (if begin_loop_variable qs (sf_question_begin_loop f) = name
      then calculate_loop_variable_value h qs ts lang
             (begin_loop_operand qs (sf_question_begin_loop f)) (sf_loop_operand_answer f) (sf_index f)
      else get_loop_variable_frames h qs ts lang fs name)"

definition get_loop_variable ::
  "expr_host \<Rightarrow> question list \<Rightarrow> the_stack \<Rightarrow> nat \<Rightarrow> string \<Rightarrow> error + json" where
  "get_loop_variable h qs ts lang name =
     get_loop_variable_frames h qs ts lang (rev (ts_vector ts)) name"

section \<open>Running transitions (ontology.cpp)\<close>

text \<open>
  The arguments pushed on a function before it is called: for each parameter question, its
  label with the data of its answer in the stack, or with null when the stack has none.
\<close>

definition condition_arguments ::
  "expr_host \<Rightarrow> question list \<Rightarrow> the_stack \<Rightarrow> nat list \<Rightarrow> (string \<times> json) list" where
  "condition_arguments h qs ts ps =
     map (\<lambda>q. (get_label qs q,
               (case find_answer ts q of Some a \<Rightarrow> answer_data_json h a | None \<Rightarrow> JNull))) ps"

text \<open>
  \<^verbatim>\<open>transition::run\<close>: the destination when the condition is null or has empty code, or when
  the condition evaluates to a true value; null otherwise.
\<close>

definition transition_run ::
  "expr_host \<Rightarrow> question list \<Rightarrow> the_stack \<Rightarrow> transition \<Rightarrow> error + nat option" where
  "transition_run h qs ts t =
     (case condition t of
        None \<Rightarrow> Inr (Some (destination t))
      | Some c \<Rightarrow>
          if fn_code c = [] then Inr (Some (destination t))
          else (case slot_js_run h (fn_code c) (condition_arguments h qs ts (fn_parameters c)) of
                  None \<Rightarrow> Inl expr_failure
                | Some v \<Rightarrow> if json_is_true v then Inr (Some (destination t)) else Inr None))"

text \<open>
  \<^verbatim>\<open>question::run_transitions\<close>: the transitions are run in order and the first destination
  is returned; after the last one, \<^verbatim>\<open>internal_error\<close> is thrown.
\<close>

fun run_transitions_from ::
  "expr_host \<Rightarrow> question list \<Rightarrow> the_stack \<Rightarrow> transition list \<Rightarrow> error + nat" where
  "run_transitions_from h qs ts [] = Inl internal_error"
| "run_transitions_from h qs ts (t # trs) =
     (case transition_run h qs ts t of
        Inl e \<Rightarrow> Inl e
      | Inr (Some q) \<Rightarrow> Inr q
      | Inr None \<Rightarrow> run_transitions_from h qs ts trs)"

definition run_transitions ::
  "expr_host \<Rightarrow> question list \<Rightarrow> the_stack \<Rightarrow> question \<Rightarrow> error + nat" where
  "run_transitions h qs ts q = run_transitions_from h qs ts (transitions q)"

section \<open>Parametric text (misc.hpp, ontology.cpp, payloads.cpp)\<close>

definition eval_prefix :: char where "eval_prefix = CHR ''@''"
definition eval_open :: char where "eval_open = CHR ''{''"
definition eval_close :: char where "eval_close = CHR ''}''"

definition isdigit :: "char \<Rightarrow> bool" where
  "isdigit c = (48 \<le> (of_char c :: nat) \<and> (of_char c :: nat) \<le> 57)"

text \<open>\<^verbatim>\<open>c - '0'\<close> in \<^verbatim>\<open>uint64_t\<close> arithmetic.\<close>

definition digit_value :: "char \<Rightarrow> 64 word" where
  "digit_value c = of_nat (of_char c) - 48"

text \<open>
  The inner \<^verbatim>\<open>do\<close> loop that accumulates a function number, entered after the first digit.
  It stops at the end of the text (abort), or at the first character that is not a digit
  (abort unless it is the closing brace). Each further digit \<open>c\<close> is appended to the side
  stream and updates the number by \<^verbatim>\<open>funcn += funcn * 10 + c - '0'\<close>, modulo \<open>2^64\<close>. The
  result is the abort flag, the side stream, the number and the text after the character
  that stopped the loop.
\<close>

fun scan_function_number ::
  "string \<Rightarrow> string \<Rightarrow> 64 word \<Rightarrow> bool \<times> string \<times> 64 word \<times> string" where
  "scan_function_number [] ss funcn = (True, ss, funcn, [])"
| "scan_function_number (c # cs) ss funcn =
     (if \<not> isdigit c then (c \<noteq> eval_close, ss, funcn, cs)
      else scan_function_number cs (ss @ [c]) (funcn + (funcn * 10 + digit_value c)))"

text \<open>
  The inner \<^verbatim>\<open>do\<close> loop that accumulates a loop variable name up to the closing brace. The
  result is the name and the text after the brace, or no text when the end was reached.
\<close>

fun scan_variable_name :: "string \<Rightarrow> string \<Rightarrow> string \<times> string option" where
  "scan_variable_name [] vars = (vars, None)"
| "scan_variable_name (c # cs) vars =
     (if c = eval_close then (vars, Some cs) else scan_variable_name cs (vars @ [c]))"

text \<open>
  The call of a text function from \<^verbatim>\<open>calculate_text\<close>: the arguments are the localized answer
  data of the parameter questions found in the stack (null for the others); then
  \<^verbatim>\<open>function::call(lang)\<close> pushes the language and, when the language is known, its two-letter
  code, and runs the snippet.
\<close>

fun text_function_arguments ::
  "expr_host \<Rightarrow> question list \<Rightarrow> the_stack \<Rightarrow> nat \<Rightarrow> nat list \<Rightarrow> error + (string \<times> json) list" where
  "text_function_arguments h qs ts lang [] = Inr []"
| "text_function_arguments h qs ts lang (q # ps) =
     (case (case find_answer ts q of
              Some a \<Rightarrow> localized_answer_data_json h a ts lang
            | None \<Rightarrow> Inr JNull) of
        Inl e \<Rightarrow> Inl e
      | Inr v \<Rightarrow>
          (case text_function_arguments h qs ts lang ps of
             Inl e \<Rightarrow> Inl e
           | Inr args \<Rightarrow> Inr ((get_label qs q, v) # args)))"

definition function_call :: "expr_host \<Rightarrow> nat \<Rightarrow> string \<Rightarrow> (string \<times> json) list \<Rightarrow> error + json" where
  "function_call h lang c args =
     (case slot_js_run h c
             (args @ [(''language'', JNum (int lang))] @
              (case language_str2 h lang of Some s \<Rightarrow> [(''language_str2'', JStr s)] | None \<Rightarrow> [])) of
        None \<Rightarrow> Inl expr_failure
      | Some v \<Rightarrow> Inr v)"

definition call_text_function ::
  "expr_host \<Rightarrow> question list \<Rightarrow> the_stack \<Rightarrow> nat \<Rightarrow> js_function \<Rightarrow> error + json" where
  "call_text_function h qs ts lang func =
     (case text_function_arguments h qs ts lang (fn_parameters func) of
        Inl e \<Rightarrow> Inl e
      | Inr args \<Rightarrow> function_call h lang (fn_code func) args)"

text \<open>How a value is inserted in the text when it comes back from a call or from a loop variable.\<close>

definition insert_value :: "expr_host \<Rightarrow> json \<Rightarrow> string" where
  "insert_value h v = (case v of JStr str \<Rightarrow> str | _ \<Rightarrow> print_json h v)"

text \<open>
  The \<^verbatim>\<open>while\<close> loop of \<^verbatim>\<open>question_body::calculate_text\<close> over the text, with the vector of
  call values \<open>fcv\<close> and the output stream \<open>s\<close>. Every \<^verbatim>\<open>break\<close> of the source ends the loop
  and returns the stream as it is then.
\<close>

function calculate_text_loop ::
  "expr_host \<Rightarrow> question list \<Rightarrow> js_function list \<Rightarrow> the_stack \<Rightarrow> nat \<Rightarrow> string \<Rightarrow>
   json option list \<Rightarrow> string \<Rightarrow> error + string" where
  "calculate_text_loop h qs fs ts lang [] fcv s = Inr s"
| "calculate_text_loop h qs fs ts lang (c # cs) fcv s =
     (if c = eval_prefix then
        (case cs of
           [] \<Rightarrow> Inr (s @ [eval_prefix])
         | c1 # cs1 \<Rightarrow>
             if c1 = eval_open then
               (case cs1 of
                  [] \<Rightarrow> Inr (s @ [eval_open])
                | c2 # cs2 \<Rightarrow>
                    if isdigit c2 then
                      (case scan_function_number cs2 [eval_prefix, eval_open, c2] (digit_value c2) of
                         (abort, ss, funcn, rest) \<Rightarrow>
                           if abort then Inr (s @ ss)
                           else if unat funcn \<ge> length fs then Inl function_call_out_of_bounds
                           else (case fcv ! unat funcn of
                                   Some v \<Rightarrow>
                                     calculate_text_loop h qs fs ts lang rest fcv (s @ print_json h v)
                                 | None \<Rightarrow>
                                     (case call_text_function h qs ts lang (fs ! unat funcn) of
                                        Inl e \<Rightarrow> Inl e
                                      | Inr v \<Rightarrow>
                                          calculate_text_loop h qs fs ts lang rest
                                            (fcv[unat funcn := Some v]) (s @ insert_value h v))))
                    else
                      (case scan_variable_name cs2 [c2] of
                         (vars, None) \<Rightarrow> Inr (s @ [eval_prefix, eval_open] @ vars)
                       | (vars, Some rest) \<Rightarrow>
                           (case get_loop_variable h qs ts lang vars of
                              Inl e \<Rightarrow> Inl e
                            | Inr v \<Rightarrow>
                                if v = JNull then Inl question_loop_variable_unknown
                                else calculate_text_loop h qs fs ts lang rest fcv
                                       (s @ insert_value h v))))
             else calculate_text_loop h qs fs ts lang cs1 fcv (s @ [c1]))
      else calculate_text_loop h qs fs ts lang cs fcv (s @ [c]))"
  by pat_completeness auto
termination
proof -
  have digits: "length (snd (snd (snd (scan_function_number cs ss funcn)))) \<le> length cs"
    for cs ss funcn
    by (induction cs ss funcn rule: scan_function_number.induct) auto
  have number: "length rest \<le> length cs"
    if "(abort, y) = scan_function_number cs ss funcn" "(ss', ya) = y" "(funcn', rest) = ya"
    for cs ss funcn abort y ss' ya funcn' rest
    using digits [of cs ss funcn] that by (metis snd_conv)
  have name: "length rest \<le> length cs"
    if "(vars', y) = scan_variable_name cs vars" "y = Some rest"
    for cs vars vars' y rest
    using that by (induction cs vars rule: scan_variable_name.induct) (auto split: if_splits)
  show ?thesis
    apply (relation "measure (\<lambda>(h, qs, fs, ts, lang, text, fcv, s). length text)")
         apply simp
        apply (simp, drule number, assumption, assumption, simp)
       apply (simp, drule number, assumption, assumption, simp)
      apply (simp, drule name, simp, simp)
     apply simp
    apply simp
    done
qed

text \<open>
  \<^verbatim>\<open>question_body::calculate_text\<close>: the text is returned untouched when the body has no text
  function and the stack has no frame.
\<close>

definition calculate_text ::
  "expr_host \<Rightarrow> question list \<Rightarrow> question_body \<Rightarrow> the_stack \<Rightarrow> nat \<Rightarrow> string \<Rightarrow> error + string" where
  "calculate_text h qs qb ts lang text =
     (if text_functions qb = [] \<and> ts_vector ts = [] then Inr text
      else calculate_text_loop h qs (text_functions qb) ts lang text
             (replicate (length (text_functions qb)) None) [])"

text \<open>A transition without a condition or with a condition of empty code.\<close>

definition condition_is_empty :: "transition \<Rightarrow> bool" where
  "condition_is_empty t = (case condition t of None \<Rightarrow> True | Some c \<Rightarrow> fn_code c = [])"

section \<open>Source payloads (payloads.hpp)\<close>

text \<open>
  The source of a questionnaire refers to questions by label. Owned pointers that the
  compiler tests for null are options.
\<close>

record source_function =
  src_parameters :: "string list"
  src_code :: string

record source_text =
  src_functions :: "source_function option list"
  src_value :: string

record source_transition =
  st_parameters :: "string list"
  st_condition :: string
  st_code :: string
  st_destination :: string

record source_option =
  so_label :: string
  so_comment_label :: string

datatype source_question_kind =
    source_question_message string "source_text option"
  | source_question_input string "source_text option" string bool
  | source_question_select string "source_text option" string bool "source_option option list"
  | source_question_select_at_most string "source_text option" string bool
      "source_option option list" nat
  | source_question_select_limit string "source_text option" string bool
      "source_option option list" nat
  | source_question_rank_at_most string "source_text option" string bool
      "source_option option list" nat
  | source_question_rank_limit string "source_text option" string bool
      "source_option option list" nat
  | source_question_from_template string
  | source_question_begin_loop string string string
  | source_question_end_loop

record source_question =
  sq_label :: string
  sq_transitions :: "source_transition option list"
  sq_kind :: source_question_kind

record source_questionnaire =
  sqq_name :: string
  sqq_language :: nat
  sqq_questions :: "source_question option list"

section \<open>Labels (ontology.cpp, misc.hpp)\<close>

definition isalpha :: "char \<Rightarrow> bool" where
  "isalpha c = ((65 \<le> (of_char c :: nat) \<and> (of_char c :: nat) \<le> 90) \<or>
               (97 \<le> (of_char c :: nat) \<and> (of_char c :: nat) \<le> 122))"

definition label_is_reserved :: "string \<Rightarrow> bool" where
  "label_is_reserved l = (l = ''language'' \<or> l = ''language_str2'')"

text \<open>
  \<^verbatim>\<open>question::validate_label\<close>: the whole label matches \<^verbatim>\<open>[a-zA-Z$][0-9a-zA-Z_$]*\<close> and is not
  reserved.
\<close>

definition validate_label :: "string \<Rightarrow> bool" where
  "validate_label l =
     ((case l of
         [] \<Rightarrow> False
       | c # cs \<Rightarrow>
           (isalpha c \<or> c = CHR ''$'') \<and>
           list_all (\<lambda>x. isdigit x \<or> isalpha x \<or> x = CHR ''_'' \<or> x = CHR ''$'') cs) \<and>
      \<not> label_is_reserved l)"

section \<open>Question information (ontology.hpp)\<close>

text \<open>
  \<^verbatim>\<open>question_info\<close>: the index of a question, the begin loops around it (the parent last), and
  for an end loop its matching begin loop. The map by label pairs it with the pointer to the
  question.
\<close>

record question_info =
  qi_index :: nat
  qi_loop_nest :: "nat list"
  qi_matching_begin_loop :: "nat option"

definition get_parent_begin_loop :: "question_info \<Rightarrow> nat option" where
  "get_parent_begin_loop qi = (if qi_loop_nest qi \<noteq> [] then Some (last (qi_loop_nest qi)) else None)"

type_synonym question_infos_by_label_map = "(string \<times> question_info \<times> nat) list"

section \<open>First pass: the questions (payloads.cpp, payloads.hpp)\<close>

text \<open>The text of an inline source question must be present and not empty.\<close>

definition text_is_missing :: "source_text option \<Rightarrow> bool" where
  "text_is_missing t = (case t of None \<Rightarrow> True | Some st \<Rightarrow> src_value st = [])"

text \<open>
  \<^verbatim>\<open>source_question_with_options::compile_options\<close>: one option and one option localization
  per source option. The option has a comment when the source comment label is not empty,
  and the constructor of the localization refuses an empty label.
\<close>

fun compile_options ::
  "nat \<Rightarrow> source_option option list \<Rightarrow> error + (bool list \<times> option_localization list)" where
  "compile_options n [] = Inr ([], [])"
| "compile_options n (sch # schs) =
     (case sch of
        None \<Rightarrow> Inl source_question_contains_null_option
      | Some so \<Rightarrow>
          if so_label so = [] then Inl option_localization_label_is_empty
          else (case compile_options (Suc n) schs of
                  Inl e \<Rightarrow> Inl e
                | Inr (os, ols) \<Rightarrow>
                    Inr ((so_comment_label so \<noteq> []) # os,
                         \<lparr>ol_option = n, ol_label = so_label so,
                          ol_comment_label = so_comment_label so\<rparr> # ols)))"

text \<open>
  The constructor of \<^verbatim>\<open>question\<close> validates the label. The question is built without
  transitions and its body without text functions; both are added by the second pass.
\<close>

definition make_question :: "string \<Rightarrow> question_kind \<Rightarrow> error + question" where
  "make_question l k =
     (if \<not> validate_label l then Inl question_label_is_invalid
      else Inr \<lparr>label = l, transitions = [], kind = k\<rparr>)"

definition make_body :: "string \<Rightarrow> question_body_variant \<Rightarrow> question_body" where
  "make_body s v = \<lparr>text_functions = [], style = s, variant = v\<rparr>"

text \<open>
  \<^verbatim>\<open>source_question_multiple_choices::tmpl_compile\<close>, with the constructors of the body and of
  the localization body as arguments. A limit of 0 becomes the number of options.
\<close>

definition tmpl_compile ::
  "(bool \<Rightarrow> bool \<Rightarrow> bool list \<Rightarrow> nat \<Rightarrow> question_body_variant) \<Rightarrow>
   (string \<Rightarrow> string \<Rightarrow> option_localization list \<Rightarrow> question_localization_body) \<Rightarrow>
   nat \<Rightarrow> string \<Rightarrow> string \<Rightarrow> source_text option \<Rightarrow> string \<Rightarrow> bool \<Rightarrow>
   source_option option list \<Rightarrow> nat \<Rightarrow> error + (question \<times> question_localization option)" where
  "tmpl_compile mk_body mk_loc n l sty txt cl rnd opts lim =
     (let lim' = (if lim = 0 then length opts else lim) in
      if text_is_missing txt then Inl source_question_text_is_missing
      else if lim' \<le> 1 \<or> length opts < lim' then Inl source_question_has_invalid_options
      else (case make_question l (question_with_body (make_body sty (mk_body rnd (cl \<noteq> []) [] lim'))) of
              Inl e \<Rightarrow> Inl e
            | Inr q0 \<Rightarrow>
                (case compile_options 0 opts of
                   Inl e \<Rightarrow> Inl e
                 | Inr (os, ols) \<Rightarrow>
                     Inr (q0\<lparr>kind := question_with_body (make_body sty (mk_body rnd (cl \<noteq> []) os lim'))\<rparr>,
                          Some \<lparr>ql_question = n,
                                ql_body = mk_loc (src_value (the txt)) cl ols\<rparr>))))"

text \<open>
  The template library by label, \<^verbatim>\<open>template_question::find(connector, label)\<close>, is a
  parameter.
\<close>

type_synonym template_index = "string \<Rightarrow> template_question option"

text \<open>
  The virtual \<^verbatim>\<open>source_question::compile(questionnaire, map)\<close> of the first pass, for the
  question that will be at position \<open>n\<close>. The existing questions \<open>qs\<close> are needed by the begin
  loop, whose operand question must be in the map already and must admit an answer.
\<close>

fun compile_question ::
  "template_index \<Rightarrow> question list \<Rightarrow> question_infos_by_label_map \<Rightarrow> nat \<Rightarrow> source_question \<Rightarrow>
   error + (question \<times> question_localization option)" where
  "compile_question tqs qs m n sq =
     (case sq_kind sq of
        source_question_message sty txt \<Rightarrow>
          if text_is_missing txt then Inl source_question_text_is_missing
          else (case make_question (sq_label sq) (question_with_body (make_body sty question_body_message)) of
                  Inl e \<Rightarrow> Inl e
                | Inr q \<Rightarrow>
                    Inr (q, Some \<lparr>ql_question = n,
                                  ql_body = question_localization_body_message (src_value (the txt))\<rparr>))
      | source_question_input sty txt cl opt \<Rightarrow>
          if text_is_missing txt then Inl source_question_text_is_missing
          else (case make_question (sq_label sq)
                       (question_with_body (make_body sty (question_body_input (cl \<noteq> []) opt))) of
                  Inl e \<Rightarrow> Inl e
                | Inr q \<Rightarrow>
                    Inr (q, Some \<lparr>ql_question = n,
                                  ql_body = question_localization_body_input (src_value (the txt)) cl\<rparr>))
      | source_question_select sty txt cl rnd opts \<Rightarrow>
          if text_is_missing txt then Inl source_question_text_is_missing
          else if length opts \<le> 1 then Inl source_question_has_invalid_options
          else (case make_question (sq_label sq)
                       (question_with_body (make_body sty (question_body_select rnd (cl \<noteq> []) []))) of
                  Inl e \<Rightarrow> Inl e
                | Inr q0 \<Rightarrow>
                    (case compile_options 0 opts of
                       Inl e \<Rightarrow> Inl e
                     | Inr (os, ols) \<Rightarrow>
                         Inr (q0\<lparr>kind := question_with_body
                                            (make_body sty (question_body_select rnd (cl \<noteq> []) os))\<rparr>,
                              Some \<lparr>ql_question = n,
                                    ql_body = question_localization_body_select (src_value (the txt)) cl ols\<rparr>)))
      | source_question_select_at_most sty txt cl rnd opts lim \<Rightarrow>
          tmpl_compile question_body_select_at_most question_localization_body_select_at_most
            n (sq_label sq) sty txt cl rnd opts lim
      | source_question_select_limit sty txt cl rnd opts lim \<Rightarrow>
          tmpl_compile question_body_select_limit question_localization_body_select_limit
            n (sq_label sq) sty txt cl rnd opts lim
      | source_question_rank_at_most sty txt cl rnd opts lim \<Rightarrow>
          tmpl_compile question_body_rank_at_most question_localization_body_rank_at_most
            n (sq_label sq) sty txt cl rnd opts lim
      | source_question_rank_limit sty txt cl rnd opts lim \<Rightarrow>
          tmpl_compile question_body_rank_limit question_localization_body_rank_limit
            n (sq_label sq) sty txt cl rnd opts lim
      | source_question_from_template name \<Rightarrow>
          (case tqs name of
             None \<Rightarrow> Inl template_question_does_not_exist
           | Some tq \<Rightarrow>
               (case make_question (sq_label sq) (question_from_template tq) of
                  Inl e \<Rightarrow> Inl e
                | Inr q \<Rightarrow> Inr (q, None)))
      | source_question_begin_loop oq var opnd \<Rightarrow>
          (case map_of m oq of
             None \<Rightarrow> Inl question_begin_loop_refers_to_unknown_question
           | Some (oqi, p) \<Rightarrow>
               (case make_question (sq_label sq) (question_begin_loop p var opnd) of
                  Inl e \<Rightarrow> Inl e
                | Inr q \<Rightarrow>
                    if p < length qs \<and> \<not> supports_answer (qs ! p)
                    then Inl question_begin_loop_refers_to_unanswerable_question
                    else if \<not> validate_label var then Inl question_begin_loop_variable_is_invalid
                    else if opnd = [] then Inl question_begin_loop_has_no_operand
                    else Inr (q, None)))
      | source_question_end_loop \<Rightarrow>
          (case make_question (sq_label sq) question_end_loop of
             Inl e \<Rightarrow> Inl e
           | Inr q \<Rightarrow> Inr (q, None)))"

text \<open>
  The state of the first pass of \<^verbatim>\<open>source_questionnaire::compile\<close>: the questionnaire and the
  localization under construction, the map by label, the loop nest and the question number.
\<close>

record first_pass =
  fp_questionnaire :: questionnaire
  fp_localization :: questionnaire_localization
  fp_map :: question_infos_by_label_map
  fp_loop_nest :: "nat list"
  fp_qn :: nat

text \<open>
  One iteration of the first loop. The question is compiled and pushed, then refused if its
  label is in the map; its information is entered in the map with the loop nest before a
  begin loop is pushed on it and after an end loop was popped from it.
\<close>

definition first_pass_step ::
  "template_index \<Rightarrow> first_pass \<Rightarrow> source_question option \<Rightarrow> error + first_pass" where
  "first_pass_step tqs st osq =
     (case osq of
        None \<Rightarrow> Inl source_questionnaire_contains_null_question
      | Some sq \<Rightarrow>
          (case compile_question tqs (questions (fp_questionnaire st)) (fp_map st) (fp_qn st) sq of
             Inl e \<Rightarrow> Inl e
           | Inr (q, oql) \<Rightarrow>
               (case push_question_back (fp_questionnaire st) q of
                  Inl e \<Rightarrow> Inl e
                | Inr qq \<Rightarrow>
                    if map_of (fp_map st) (label q) \<noteq> None then Inl question_label_is_a_duplicate
                    else if fp_loop_nest st = [] \<and> get_loop_type q = end_loop
                    then Inl question_loop_is_not_balanced
                    else
                      (let ln = fp_loop_nest st;
                           ln_info = (if get_loop_type q = end_loop then butlast ln else ln);
                           mbl = (if get_loop_type q = end_loop then Some (last ln) else None);
                           ln' = (if get_loop_type q = end_loop then butlast ln
                                  else if get_loop_type q = begin_loop then ln @ [fp_qn st]
                                  else ln)
                       in Inr \<lparr>fp_questionnaire = qq,
                               fp_localization =
                                 (case oql of
                                    None \<Rightarrow> fp_localization st
                                  | Some ql \<Rightarrow>
                                      (fp_localization st)\<lparr>questions_localizations :=
                                         questions_localizations (fp_localization st) @ [ql]\<rparr>),
                               fp_map = fp_map st @
                                 [(label q, \<lparr>qi_index = fp_qn st, qi_loop_nest = ln_info,
                                            qi_matching_begin_loop = mbl\<rparr>, fp_qn st)],
                               fp_loop_nest = ln',
                               fp_qn = Suc (fp_qn st)\<rparr>))))"

fun first_pass_loop ::
  "template_index \<Rightarrow> first_pass \<Rightarrow> source_question option list \<Rightarrow> error + first_pass" where
  "first_pass_loop tqs st [] = Inr st"
| "first_pass_loop tqs st (osq # osqs) =
     (case first_pass_step tqs st osq of
        Inl e \<Rightarrow> Inl e
      | Inr st' \<Rightarrow> first_pass_loop tqs st' osqs)"

section \<open>The loop nest of begin-loop operands (payloads.cpp, ontology.cpp)\<close>

text \<open>
  \<^verbatim>\<open>questionnaire::dump(leveled_questionnaire&)\<close>: the question information of every question,
  computed again from the questions, here listed by position.
\<close>

fun dump_leveled :: "question list \<Rightarrow> nat \<Rightarrow> nat list \<Rightarrow> error + question_info list" where
  "dump_leveled [] qn ln = Inr []"
| "dump_leveled (q # qs) qn ln =
     (if ln = [] \<and> get_loop_type q = end_loop then Inl question_loop_is_not_balanced
      else
        (let ln_info = (if get_loop_type q = end_loop then butlast ln else ln);
             mbl = (if get_loop_type q = end_loop \<and> ln \<noteq> [] then Some (last ln) else None);
             ln' = (if get_loop_type q = end_loop then butlast ln
                    else if get_loop_type q = begin_loop then ln @ [qn]
                    else ln)
         in (case dump_leveled qs (Suc qn) ln' of
               Inl e \<Rightarrow> Inl e
             | Inr infos \<Rightarrow>
                 Inr (\<lparr>qi_index = qn, qi_loop_nest = ln_info, qi_matching_begin_loop = mbl\<rparr> # infos))))"

text \<open>
  The loop over the questions that compares the loop nest of every begin loop with the loop
  nest of the question it iterates upon.
\<close>

fun check_begin_loops :: "question_info list \<Rightarrow> nat \<Rightarrow> question list \<Rightarrow> error + unit" where
  "check_begin_loops infos i [] = Inr ()"
| "check_begin_loops infos i (q # qs) =
     (case kind q of
        question_begin_loop oq var opnd \<Rightarrow>
          if i < length infos \<and> oq < length infos \<and>
             qi_loop_nest (infos ! i) \<noteq> qi_loop_nest (infos ! oq)
          then Inl question_begin_loop_refers_to_question_with_different_loop_nest
          else check_begin_loops infos (Suc i) qs
      | _ \<Rightarrow> check_begin_loops infos (Suc i) qs)"

section \<open>Second pass: transitions and text functions (payloads.cpp)\<close>

text \<open>
  The \<^verbatim>\<open>switch\<close> of \<^verbatim>\<open>compile_transitions\<close> on the loop type of the question \<open>q\<close>, with its
  parent begin loop \<open>qpbl\<close>, against the destination \<open>dq\<close> with information \<open>dqi\<close>.
\<close>

definition check_across_loop ::
  "question list \<Rightarrow> nat \<Rightarrow> nat option \<Rightarrow> question_info \<Rightarrow> nat \<Rightarrow> error + unit" where
  "check_across_loop qs q qpbl dqi dq =
     (case get_loop_type (qs ! q) of
        begin_loop \<Rightarrow>
          (case get_loop_type (qs ! dq) of
             begin_loop \<Rightarrow> Inl source_question_begin_loop_transitions_to_begin_loop
           | end_loop \<Rightarrow>
               if qi_matching_begin_loop dqi \<noteq> Some q then Inl source_question_transitions_across_loop
               else Inr ()
           | regular \<Rightarrow>
               if get_parent_begin_loop dqi \<noteq> Some q then Inl source_question_transitions_across_loop
               else Inr ())
      | _ \<Rightarrow>
          if qpbl \<noteq> get_parent_begin_loop dqi \<or>
             (get_loop_type (qs ! dq) = end_loop \<and> qpbl \<noteq> qi_matching_begin_loop dqi)
          then Inl source_question_transitions_across_loop
          else Inr ())"

text \<open>
  The loop over the parameters of a source transition: each must be the label of a question
  in the map; the question is pushed as a parameter of the condition.
\<close>

fun compile_transition_parameters ::
  "question_infos_by_label_map \<Rightarrow> string list \<Rightarrow> error + nat list" where
  "compile_transition_parameters m [] = Inr []"
| "compile_transition_parameters m (par # pars) =
     (case map_of m par of
        None \<Rightarrow> Inl source_question_argument_does_not_exist
      | Some (pqi, p) \<Rightarrow>
          (case compile_transition_parameters m pars of
             Inl e \<Rightarrow> Inl e
           | Inr ps \<Rightarrow> Inr (p # ps)))"

text \<open>
  \<^verbatim>\<open>question::check_conditions\<close>: the condition of every transition of the question is
  compiled by the host.
\<close>

definition check_conditions :: "expr_host \<Rightarrow> transition list \<Rightarrow> bool" where
  "check_conditions h trs =
     list_all (\<lambda>t. case condition t of None \<Rightarrow> True | Some c \<Rightarrow> slot_js_compile h (fn_code c)) trs"

text \<open>
  The \<^verbatim>\<open>while\<close> loop of \<^verbatim>\<open>compile_transitions\<close> over the source transitions that remain, with
  the transitions pushed so far on the question \<open>q\<close>, whose information has the index \<open>qn\<close> and
  the parent begin loop \<open>qpbl\<close>.
\<close>

fun compile_transitions_loop ::
  "expr_host \<Rightarrow> question_infos_by_label_map \<Rightarrow> question list \<Rightarrow> nat \<Rightarrow> nat \<Rightarrow> nat option \<Rightarrow>
   source_transition option list \<Rightarrow> transition list \<Rightarrow> error + transition list" where
  "compile_transitions_loop h m qs q qn qpbl [] pushed = Inr pushed"
| "compile_transitions_loop h m qs q qn qpbl (ot # rest) pushed =
     (case ot of
        None \<Rightarrow> Inl source_question_contains_null_transition
      | Some t \<Rightarrow>
          if rest \<noteq> [] \<and> st_condition t = [] \<and> st_code t = []
          then Inl source_question_transition_catch_all_is_not_last
          else (case map_of m (st_destination t) of
                  None \<Rightarrow> Inl source_question_transition_does_not_exist
                | Some (dqi, dq) \<Rightarrow>
                    if qn = qi_index dqi then Inl source_question_transitions_to_itself
                    else if qn > qi_index dqi then Inl source_question_transitions_to_previous_question
                    else (case check_across_loop qs q qpbl dqi dq of
                            Inl e \<Rightarrow> Inl e
                          | Inr u \<Rightarrow>
                              if st_condition t \<noteq> [] \<and> st_code t \<noteq> []
                              then Inl transition_has_both_condition_and_code
                              else (case compile_transition_parameters m (st_parameters t) of
                                      Inl e \<Rightarrow> Inl e
                                    | Inr ps \<Rightarrow>
                                        (let ocode = (if st_condition t \<noteq> [] then st_condition t
                                                      else st_code t);
                                             pushed' = pushed @
                                               [\<lparr>condition = Some \<lparr>fn_parameters = ps, fn_code = ocode\<rparr>,
                                                 destination = dq\<rparr>]
                                         in if \<not> check_conditions h pushed'
                                            then Inl source_question_transition_condition_is_incorrect
                                            else compile_transitions_loop h m qs q qn qpbl rest pushed')))))"

text \<open>
  \<^verbatim>\<open>source_question::compile_transitions\<close> for the question at position \<open>q\<close> of \<open>qs\<close>. Without
  source transitions, a question that can be final keeps none, and any other gets one
  transition without condition to the question after it. The test \<^verbatim>\<open>qi == qe\<close> of the source
  compares the iterator on the question itself with the end, so it never holds; when the
  question is the last one, the incremented iterator is the end and is dereferenced.
\<close>

definition compile_transitions ::
  "expr_host \<Rightarrow> question_infos_by_label_map \<Rightarrow> question_info \<Rightarrow> question list \<Rightarrow> nat \<Rightarrow>
   source_question \<Rightarrow> error + transition list" where
  "compile_transitions h m qqi qs q sq =
     (if sq_transitions sq = [] then
        (if can_be_final (qs ! q) then Inr []
         else if q = length qs then Inl source_question_transition_is_missing
         else if Suc q < length qs then Inr [\<lparr>condition = None, destination = Suc q\<rparr>]
         else Inl undefined_behaviour)
      else (case last (sq_transitions sq) of
              None \<Rightarrow> Inl source_question_contains_null_transition
            | Some t \<Rightarrow>
                if st_condition t \<noteq> [] then Inl source_question_transitions_lack_catch_all
                else compile_transitions_loop h m qs q (qi_index qqi) (get_parent_begin_loop qqi)
                       (sq_transitions sq) []))"

text \<open>
  \<^verbatim>\<open>source_function::compile\<close>: the loop over the parameters of a text function of the
  question with information \<open>qi\<close>.
\<close>

fun compile_function_parameters ::
  "question_infos_by_label_map \<Rightarrow> question_info \<Rightarrow> string list \<Rightarrow> error + nat list" where
  "compile_function_parameters m qi [] = Inr []"
| "compile_function_parameters m qi (par # pars) =
     (case map_of m par of
        None \<Rightarrow> Inl function_parameter_does_not_exist
      | Some (pqi, p) \<Rightarrow>
          if qi_index qi = qi_index pqi then Inl function_parameter_refers_to_self
          else if qi_index qi < qi_index pqi then Inl function_parameter_refers_to_subsequent_question
          else if qi_loop_nest qi \<noteq> qi_loop_nest pqi
          then Inl function_parameter_refers_to_question_with_different_loop_nest
          else (case compile_function_parameters m qi pars of
                  Inl e \<Rightarrow> Inl e
                | Inr ps \<Rightarrow> Inr (p # ps)))"

definition source_function_compile ::
  "question_infos_by_label_map \<Rightarrow> question_info \<Rightarrow> source_function \<Rightarrow> error + js_function" where
  "source_function_compile m qi f =
     (if src_code f = [] then Inl function_has_no_code
      else (case compile_function_parameters m qi (src_parameters f) of
              Inl e \<Rightarrow> Inl e
            | Inr ps \<Rightarrow> Inr \<lparr>fn_parameters = ps, fn_code = src_code f\<rparr>))"

text \<open>
  \<^verbatim>\<open>validate_parametric_text\<close>: every escape of a number that is closed by a brace must name a
  function below \<open>fn\<close>. The number is accumulated as in \<^verbatim>\<open>calculate_text\<close>.
\<close>

fun validate_function_number :: "string \<Rightarrow> 64 word \<Rightarrow> (char \<times> 64 word \<times> string) option" where
  "validate_function_number [] funcn = None"
| "validate_function_number (c # cs) funcn =
     (if \<not> isdigit c then Some (c, funcn, cs)
      else validate_function_number cs (funcn + (funcn * 10 + digit_value c)))"

function validate_parametric_text :: "string \<Rightarrow> nat \<Rightarrow> error + unit" where
  "validate_parametric_text [] fn = Inr ()"
| "validate_parametric_text (c # cs) fn =
     (if c = eval_prefix then
        (case cs of
           [] \<Rightarrow> Inr ()
         | c1 # cs1 \<Rightarrow>
             if c1 = eval_open then
               (case cs1 of
                  [] \<Rightarrow> Inr ()
                | c2 # cs2 \<Rightarrow>
                    if isdigit c2 then
                      (case validate_function_number cs2 (digit_value c2) of
                         None \<Rightarrow> Inr ()
                       | Some (c3, funcn, rest) \<Rightarrow>
                           if c3 = eval_close \<and> unat funcn \<ge> fn then Inl function_call_out_of_bounds
                           else validate_parametric_text rest fn)
                    else validate_parametric_text cs2 fn)
             else validate_parametric_text cs1 fn)
      else validate_parametric_text cs fn)"
  by pat_completeness auto
termination
proof -
  have number: "length rest \<le> length cs"
    if "validate_function_number cs funcn = Some (c, funcn', rest)" for cs funcn c funcn' rest
    using that by (induction cs funcn rule: validate_function_number.induct) (auto split: if_splits)
  have number': "length rest \<le> length cs"
    if "validate_function_number cs funcn = Some x" "(c, y) = x" "(funcn', rest) = y"
    for cs funcn x c y funcn' rest
    using number [of cs funcn c funcn' rest] that by simp
  show ?thesis
    apply (relation "measure (\<lambda>(text, fn). length text)")
        apply simp
       apply (simp, drule number', assumption, assumption, simp)
      apply simp
     apply simp
    apply simp
    done
qed

text \<open>
  \<^verbatim>\<open>source_text::compile\<close>: the functions are compiled in order and pushed on the body, then the
  text is validated against their number.
\<close>

fun compile_functions ::
  "question_infos_by_label_map \<Rightarrow> question_info \<Rightarrow> source_function option list \<Rightarrow>
   error + js_function list" where
  "compile_functions m qi [] = Inr []"
| "compile_functions m qi (f # fs) =
     (case f of
        None \<Rightarrow> Inl function_is_null
      | Some sf \<Rightarrow>
          (case source_function_compile m qi sf of
             Inl e \<Rightarrow> Inl e
           | Inr func \<Rightarrow>
               (case compile_functions m qi fs of
                  Inl e \<Rightarrow> Inl e
                | Inr funcs \<Rightarrow> Inr (func # funcs))))"

definition source_text_compile ::
  "question_infos_by_label_map \<Rightarrow> question_info \<Rightarrow> source_text \<Rightarrow> error + js_function list" where
  "source_text_compile m qi txt =
     (case compile_functions m qi (src_functions txt) of
        Inl e \<Rightarrow> Inl e
      | Inr funcs \<Rightarrow>
          (case validate_parametric_text (src_value txt) (length (src_functions txt)) of
             Inl e \<Rightarrow> Inl e
           | Inr u \<Rightarrow> Inr funcs))"

text \<open>The text of a source question, for the inline classes.\<close>

fun source_question_text :: "source_question_kind \<Rightarrow> source_text option" where
  "source_question_text (source_question_message sty txt) = txt"
| "source_question_text (source_question_input sty txt cl opt) = txt"
| "source_question_text (source_question_select sty txt cl rnd opts) = txt"
| "source_question_text (source_question_select_at_most sty txt cl rnd opts lim) = txt"
| "source_question_text (source_question_select_limit sty txt cl rnd opts lim) = txt"
| "source_question_text (source_question_rank_at_most sty txt cl rnd opts lim) = txt"
| "source_question_text (source_question_rank_limit sty txt cl rnd opts lim) = txt"
| "source_question_text k = None"

text \<open>
  \<^verbatim>\<open>compile_more\<close>: nothing for a question from template or a loop question; for an inline
  question the text functions are compiled onto the body of the question.
\<close>

definition compile_more ::
  "question_infos_by_label_map \<Rightarrow> question_info \<Rightarrow> question \<Rightarrow> source_question \<Rightarrow> error + question" where
  "compile_more m qi q sq =
     (case source_question_text (sq_kind sq) of
        None \<Rightarrow> Inr q
      | Some txt \<Rightarrow>
          (case kind q of
             question_with_body qb \<Rightarrow>
               (case source_text_compile m qi txt of
                  Inl e \<Rightarrow> Inl e
                | Inr funcs \<Rightarrow>
                    Inr (q\<lparr>kind := question_with_body
                                     (qb\<lparr>text_functions := text_functions qb @ funcs\<rparr>)\<rparr>))
           | _ \<Rightarrow> Inl internal_error))"

text \<open>
  \<^verbatim>\<open>source_question::compile(map, info, i, e)\<close> of the second pass: the transitions, then the
  text functions.
\<close>

definition source_question_compile ::
  "expr_host \<Rightarrow> question_infos_by_label_map \<Rightarrow> question_info \<Rightarrow> question list \<Rightarrow> nat \<Rightarrow>
   source_question \<Rightarrow> error + question" where
  "source_question_compile h m qqi qs qn sq =
     (case compile_transitions h m qqi qs qn sq of
        Inl e \<Rightarrow> Inl e
      | Inr trs \<Rightarrow> compile_more m qqi ((qs ! qn)\<lparr>transitions := transitions (qs ! qn) @ trs\<rparr>) sq)"

fun second_pass_loop ::
  "expr_host \<Rightarrow> question_infos_by_label_map \<Rightarrow> question list \<Rightarrow> nat \<Rightarrow>
   source_question option list \<Rightarrow> error + question list" where
  "second_pass_loop h m qs qn [] = Inr qs"
| "second_pass_loop h m qs qn (osq # osqs) =
     (case osq of
        None \<Rightarrow> Inl internal_error
      | Some sq \<Rightarrow>
          if qn \<ge> length qs then Inl internal_error
          else (case map_of m (label (qs ! qn)) of
                  None \<Rightarrow> Inl internal_error
                | Some (qqi, p) \<Rightarrow>
                    (case source_question_compile h m qqi qs qn sq of
                       Inl e \<Rightarrow> Inl e
                     | Inr q' \<Rightarrow> second_pass_loop h m (qs[qn := q']) (Suc qn) osqs)))"

text \<open>
  \<^verbatim>\<open>source_questionnaire::compile\<close>: the questionnaire and its first localization, or the first
  error.
\<close>

definition compile ::
  "expr_host \<Rightarrow> template_index \<Rightarrow> source_questionnaire \<Rightarrow>
   error + (questionnaire \<times> questionnaire_localization)" where
  "compile h tqs src =
     (if sqq_name src = [] then Inl source_questionnaire_name_is_empty
      else if sqq_questions src = [] then Inl source_questionnaire_has_no_questions
      else (case first_pass_loop tqs
                   \<lparr>fp_questionnaire = make_questionnaire,
                    fp_localization = make_questionnaire_localization (sqq_language src),
                    fp_map = [], fp_loop_nest = [], fp_qn = 0\<rparr> (sqq_questions src) of
              Inl e \<Rightarrow> Inl e
            | Inr st \<Rightarrow>
                if fp_loop_nest st \<noteq> [] then Inl question_loop_is_not_closed
                else (case dump_leveled (questions (fp_questionnaire st)) 0 [] of
                        Inl e \<Rightarrow> Inl e
                      | Inr infos \<Rightarrow>
                          (case check_begin_loops infos 0 (questions (fp_questionnaire st)) of
                             Inl e \<Rightarrow> Inl e
                           | Inr u \<Rightarrow>
                               (case second_pass_loop h (fp_map st) (questions (fp_questionnaire st)) 0
                                       (sqq_questions src) of
                                  Inl e \<Rightarrow> Inl e
                                | Inr qs' \<Rightarrow>
                                    Inr ((fp_questionnaire st)\<lparr>questions := qs'\<rparr>,
                                         fp_localization st))))))"

section \<open>Invariants of the two passes\<close>

text \<open>
  Every entry of the map by label has the pointer to the question equal to the index in its
  information, below \<open>n\<close>; and the label of every question of \<open>qs\<close> leads to that question.
\<close>

definition map_ok :: "question_infos_by_label_map \<Rightarrow> nat \<Rightarrow> bool" where
  "map_ok m n \<longleftrightarrow> (\<forall>l info p. map_of m l = Some (info, p) \<longrightarrow> qi_index info = p \<and> p < n)"

definition labels_ok :: "question_infos_by_label_map \<Rightarrow> question list \<Rightarrow> bool" where
  "labels_ok m qs \<longleftrightarrow> (\<forall>j < length qs. \<exists>info. map_of m (label (qs ! j)) = Some (info, j))"

definition first_pass_inv :: "first_pass \<Rightarrow> bool" where
  "first_pass_inv st \<longleftrightarrow>
     fp_qn st = length (questions (fp_questionnaire st)) \<and>
     map_ok (fp_map st) (fp_qn st) \<and>
     labels_ok (fp_map st) (questions (fp_questionnaire st)) \<and>
     (\<forall>q \<in> set (questions (fp_questionnaire st)). transitions q = [])"

text \<open>
  During the second pass the questions before \<open>n\<close> have their transitions, all forward and
  inside the questionnaire, and the others have none yet.
\<close>

definition forward_upto :: "question list \<Rightarrow> nat \<Rightarrow> bool" where
  "forward_upto qs n \<longleftrightarrow>
     (\<forall>i t. i < length qs \<and> i < n \<and> t \<in> set (transitions (qs ! i)) \<longrightarrow>
        i < destination t \<and> destination t < length qs) \<and>
     (\<forall>i. i < length qs \<and> n \<le> i \<longrightarrow> transitions (qs ! i) = [])"

section \<open>The rule on function parameters, in the words of the specification\<close>

text \<open>
  What is wrong with one parameter \<open>par\<close> of a text function carried by the question with
  information \<open>qi\<close>: it names no question, it names the question itself, a later question,
  or a question with another loop nest; or nothing.
\<close>

definition parameter_error ::
  "question_infos_by_label_map \<Rightarrow> question_info \<Rightarrow> string \<Rightarrow> error option" where
  "parameter_error m qi par =
     (case map_of m par of
        None \<Rightarrow> Some function_parameter_does_not_exist
      | Some (pqi, p) \<Rightarrow>
          if qi_index pqi = qi_index qi then Some function_parameter_refers_to_self
          else if qi_index qi < qi_index pqi then Some function_parameter_refers_to_subsequent_question
          else if qi_loop_nest pqi \<noteq> qi_loop_nest qi
          then Some function_parameter_refers_to_question_with_different_loop_nest
          else None)"

text \<open>The question a label denotes in the map.\<close>

definition question_of :: "question_infos_by_label_map \<Rightarrow> string \<Rightarrow> nat" where
  "question_of m par = snd (the (map_of m par))"

section \<open>Interviews (ontology.hpp, ontology.cpp)\<close>

text \<open>
  The interview keeps its language, its history, its state and the next question. The
  questionnaire (through the campaign) and the questionnaire localization it links to are
  arguments of the functions below, with the expression host and the template library. A
  link to a question is a position in the questionnaire; the referential integrity of the
  store keeps every link on an existing question, so the positions met are inside the list.
  The clock and the window of the campaign are left out.
\<close>

datatype state_t = initiated | ongoing | completed

record interview =
  i_language :: nat
  i_history :: "entry list"
  i_state :: state_t
  i_next_question :: "nat option"

definition set_next_question :: "question list \<Rightarrow> interview \<Rightarrow> nat \<Rightarrow> interview" where
  "set_next_question qs i q =
     i\<lparr>i_state := (if is_final (qs ! q) then completed else i_state i), i_next_question := Some q\<rparr>"

text \<open>
  The weak link of a begin-loop entry is followed to the answer of that identity in the
  history; it is null when no entry holds such an answer.
\<close>

fun get_loop_operand_answer :: "entry list \<Rightarrow> nat \<Rightarrow> answer option" where
  "get_loop_operand_answer [] loa = None"
| "get_loop_operand_answer (entry_answer a # es) loa =
     (if a_id a = loa then Some a else get_loop_operand_answer es loa)"
| "get_loop_operand_answer (e # es) loa = get_loop_operand_answer es loa"

text \<open>
  \<^verbatim>\<open>the_stack::process_entry\<close>, for an entry of the history \<open>hist\<close>. The loop operand answer of a
  begin-loop entry is dereferenced; a null link has no defined result.
\<close>

definition process_entry ::
  "expr_host \<Rightarrow> question list \<Rightarrow> nat \<Rightarrow> entry list \<Rightarrow> the_stack \<Rightarrow> entry \<Rightarrow> error + the_stack" where
  "process_entry h qs lang hist ts e =
     (case e of
        entry_answer a \<Rightarrow> Inr (replace_answer ts a)
      | entry_begin_loop qbl loa index \<Rightarrow>
          (case get_loop_operand_answer hist loa of
             None \<Rightarrow> Inl undefined_behaviour
           | Some a \<Rightarrow> stack_process_begin_loop_with h qs lang ts qbl a)
      | entry_end_loop qel \<Rightarrow>
          (case stack_process_end_loop ts of
             Inl err \<Rightarrow> Inl err
           | Inr (b, ts') \<Rightarrow> Inr ts'))"

text \<open>
  \<^verbatim>\<open>interview::calculate\<close>: the stack after the entries \<open>es\<close>, a prefix of the history, were
  processed in order on \<open>ts\<close>.
\<close>

fun calculate ::
  "expr_host \<Rightarrow> question list \<Rightarrow> nat \<Rightarrow> entry list \<Rightarrow> the_stack \<Rightarrow> entry list \<Rightarrow> error + the_stack" where
  "calculate h qs lang hist ts [] = Inr ts"
| "calculate h qs lang hist ts (e # es) =
     (case process_entry h qs lang hist ts e of
        Inl err \<Rightarrow> Inl err
      | Inr ts' \<Rightarrow> calculate h qs lang hist ts' es)"

text \<open>
  \<^verbatim>\<open>interview::find_matching_end_loop\<close>: from the question after the begin loop, a counter
  that starts at 1 goes up at every begin loop and down at every end loop; the question
  that brings it to 0 is the matching end loop. The source runs past the end of the list
  when there is none.
\<close>

fun scan_matching_end_loop :: "question list \<Rightarrow> nat \<Rightarrow> nat \<Rightarrow> nat option" where
  "scan_matching_end_loop [] pos lc = None"
| "scan_matching_end_loop (q # qs) pos lc =
     (let lc' = (case get_loop_type q of begin_loop \<Rightarrow> Suc lc | end_loop \<Rightarrow> lc - 1 | regular \<Rightarrow> lc)
      in if lc' = 0 then Some pos else scan_matching_end_loop qs (Suc pos) lc')"

definition find_matching_end_loop :: "question list \<Rightarrow> nat \<Rightarrow> error + nat option" where
  "find_matching_end_loop qs qbl =
     (if qbl < length qs
      then (case scan_matching_end_loop (drop (Suc qbl) qs) (Suc qbl) 1 of
              None \<Rightarrow> Inl undefined_behaviour
            | Some qel \<Rightarrow> Inr (Some qel))
      else Inr None)"

text \<open>\<^verbatim>\<open>the_stack::get_index\<close>: the index of the innermost frame.\<close>

definition get_index :: "the_stack \<Rightarrow> nat" where
  "get_index ts = sf_index (last (ts_vector ts))"

text \<open>
  The three functions that look for the next question to ask: \<^verbatim>\<open>calculate_new_next_question\<close>
  on a question, \<^verbatim>\<open>process_begin_loop\<close> and \<^verbatim>\<open>process_end_loop\<close>. They call each other for as
  long as loop questions are met, which nothing bounds; the first argument bounds the
  number of calls, and the result is \<open>None\<close> when it is used up. The history is passed along
  and returned with the entries that were added.
\<close>

type_synonym advance_result = "(error + nat \<times> entry list \<times> the_stack) option"

fun calculate_new_next_question_from ::
    "nat \<Rightarrow> expr_host \<Rightarrow> question list \<Rightarrow> nat \<Rightarrow> entry list \<Rightarrow> the_stack \<Rightarrow> nat \<Rightarrow> advance_result"
  and process_begin_loop ::
    "nat \<Rightarrow> expr_host \<Rightarrow> question list \<Rightarrow> nat \<Rightarrow> entry list \<Rightarrow> the_stack \<Rightarrow> nat \<Rightarrow> advance_result"
  and process_end_loop ::
    "nat \<Rightarrow> expr_host \<Rightarrow> question list \<Rightarrow> nat \<Rightarrow> entry list \<Rightarrow> the_stack \<Rightarrow> nat \<Rightarrow> advance_result"
where
  "calculate_new_next_question_from 0 h qs lang hist ts q = None"
| "calculate_new_next_question_from (Suc n) h qs lang hist ts q =
     (if supports_localization (qs ! q) then Some (Inr (q, hist, ts))
      else (case get_loop_type (qs ! q) of
              begin_loop \<Rightarrow> process_begin_loop n h qs lang hist ts q
            | end_loop \<Rightarrow> process_end_loop n h qs lang hist ts q
            | regular \<Rightarrow> Some (Inl internal_error)))"
| "process_begin_loop 0 h qs lang hist ts qbl = None"
| "process_begin_loop (Suc n) h qs lang hist ts qbl =
     (case stack_process_begin_loop h qs lang ts qbl of
        Inl e \<Rightarrow> Some (Inl e)
      | Inr (Some loa, ts') \<Rightarrow>
          (let hist' = hist @ [entry_begin_loop qbl (a_id loa) (get_index ts')] in
           case run_transitions h qs ts' (qs ! qbl) of
             Inl e \<Rightarrow> Some (Inl e)
           | Inr q \<Rightarrow>
               if get_loop_type (qs ! q) = end_loop then process_end_loop n h qs lang hist' ts' q
               else calculate_new_next_question_from n h qs lang hist' ts' q)
      | Inr (None, ts') \<Rightarrow>
          (case find_matching_end_loop qs qbl of
             Inl e \<Rightarrow> Some (Inl e)
           | Inr None \<Rightarrow> Some (Inl internal_error)
           | Inr (Some qel) \<Rightarrow>
               (case run_transitions h qs ts' (qs ! qel) of
                  Inl e \<Rightarrow> Some (Inl e)
                | Inr q \<Rightarrow>
                    (case get_loop_type (qs ! q) of
                       regular \<Rightarrow> calculate_new_next_question_from n h qs lang hist ts' q
                     | begin_loop \<Rightarrow> process_begin_loop n h qs lang hist ts' q
                     | end_loop \<Rightarrow> process_end_loop n h qs lang hist ts' q))))"
| "process_end_loop 0 h qs lang hist ts qel = None"
| "process_end_loop (Suc n) h qs lang hist ts qel =
     (if ts_vector ts = [] then Some (Inl question_loop_logic_error)
      else
        (let hist' = hist @ [entry_end_loop qel] in
         case stack_process_end_loop ts of
           Inl e \<Rightarrow> Some (Inl e)
         | Inr (True, ts') \<Rightarrow>
             (case run_transitions h qs ts' (qs ! sf_question_begin_loop (last (ts_vector ts'))) of
                Inl e \<Rightarrow> Some (Inl e)
              | Inr q \<Rightarrow>
                  if get_loop_type (qs ! q) = end_loop then process_end_loop n h qs lang hist' ts' q
                  else calculate_new_next_question_from n h qs lang hist' ts' q)
         | Inr (False, ts') \<Rightarrow>
             (case run_transitions h qs ts' (qs ! qel) of
                Inl e \<Rightarrow> Some (Inl e)
              | Inr q \<Rightarrow>
                  (case get_loop_type (qs ! q) of
                     regular \<Rightarrow> calculate_new_next_question_from n h qs lang hist' ts' q
                   | begin_loop \<Rightarrow> process_begin_loop n h qs lang hist' ts' q
                   | end_loop \<Rightarrow> process_end_loop n h qs lang hist' ts' q))))"

section \<open>Localized questions (ontology.cpp)\<close>

text \<open>
  Of the localized question sent to the client the model keeps the label, the computed text
  and, for a message, whether the question has no transition.
\<close>

record localized_question =
  lq_label :: string
  lq_text :: string
  lq_final :: bool

text \<open>
  The virtual \<^verbatim>\<open>make_localized_question\<close> of the localization bodies, for the question \<open>q\<close>:
  the input and multiple-choice bodies cast the body of the question to their own class
  before the text is computed.
\<close>

definition make_localized_question ::
  "expr_host \<Rightarrow> question list \<Rightarrow> the_stack \<Rightarrow> nat \<Rightarrow> question_localization_body \<Rightarrow> nat \<Rightarrow>
   error + localized_question" where
  "make_localized_question h qs ts lang qlb q =
     (case get_body (qs ! q) of
        None \<Rightarrow> Inl internal_error
      | Some qb \<Rightarrow>
          if (case qlb of
                question_localization_body_message t \<Rightarrow> True
              | question_localization_body_input t c \<Rightarrow>
                  (case variant qb of question_body_input hc opt \<Rightarrow> True | _ \<Rightarrow> False)
              | question_localization_body_select t c os \<Rightarrow> True
              | _ \<Rightarrow>
                  (case variant qb of
                     question_body_select_at_most r hc os l \<Rightarrow> True
                   | question_body_select_limit r hc os l \<Rightarrow> True
                   | question_body_rank_at_most r hc os l \<Rightarrow> True
                   | question_body_rank_limit r hc os l \<Rightarrow> True
                   | _ \<Rightarrow> False))
          then (case calculate_text h qs qb ts lang (get_text qlb) of
                  Inl e \<Rightarrow> Inl e
                | Inr t \<Rightarrow>
                    Inr \<lparr>lq_label = label (qs ! q), lq_text = t,
                         lq_final = (case qlb of
                                       question_localization_body_message t' \<Rightarrow> transitions (qs ! q) = []
                                     | _ \<Rightarrow> False)\<rparr>)
          else Inl bad_cast)"

text \<open>\<^verbatim>\<open>questionnaire_localization::find_question_localization\<close>: the first one of the question.\<close>

definition find_question_localization ::
  "questionnaire_localization \<Rightarrow> nat \<Rightarrow> question_localization option" where
  "find_question_localization qql q = find (\<lambda>ql. ql_question ql = q) (questions_localizations qql)"

text \<open>
  \<^verbatim>\<open>interview::next_question_localization\<close>: the localization of the question in the
  questionnaire localization, else that of its template in the library, else an error.
\<close>

definition question_localizations ::
  "template_library \<Rightarrow> question list \<Rightarrow> questionnaire_localization \<Rightarrow> nat \<Rightarrow> nat \<Rightarrow>
   error + localizations" where
  "question_localizations lib qs qql lang q =
     (case find_question_localization qql q of
        Some ql \<Rightarrow> Inr (from_question_localization ql)
      | None \<Rightarrow>
          (case kind (qs ! q) of
             question_from_template tq \<Rightarrow>
               (case lib (tq_id tq) lang of
                  None \<Rightarrow> Inl internal_error
                | Some tql \<Rightarrow> Inr (from_template_localization tql q))
           | _ \<Rightarrow> Inl internal_error))"

text \<open>
  \<^verbatim>\<open>interview::next_localized_question(ts)\<close> and the end of \<^verbatim>\<open>move_ahead\<close>: the localized
  question of \<open>q\<close> against the stack.
\<close>

definition localized_question_of ::
  "expr_host \<Rightarrow> template_library \<Rightarrow> question list \<Rightarrow> questionnaire_localization \<Rightarrow> nat \<Rightarrow>
   the_stack \<Rightarrow> nat \<Rightarrow> error + localized_question" where
  "localized_question_of h lib qs qql lang ts q =
     (case question_localizations lib qs qql lang q of
        Inl e \<Rightarrow> Inl e
      | Inr (from_question_localization ql) \<Rightarrow> make_localized_question h qs ts lang (ql_body ql) q
      | Inr (from_template_localization tql qft) \<Rightarrow>
          make_localized_question h qs ts lang (tql_body tql) q)"

section \<open>Start and submit (ontology.cpp, services.cpp)\<close>

text \<open>
  \<^verbatim>\<open>interview::start\<close> with the questionnaire localization found for the language, if any: it
  is checked, the interview must be initiated, and the next question is the first one.
\<close>

definition start ::
  "template_library \<Rightarrow> questionnaire \<Rightarrow> questionnaire_localization option \<Rightarrow> interview \<Rightarrow> nat \<Rightarrow>
   error + interview \<times> questionnaire_localization" where
  "start lib qq found i lang =
     (case found of
        None \<Rightarrow> Inl questionnaire_localization_does_not_exist
      | Some qql \<Rightarrow>
          (case check lib qq qql of
             Inl e \<Rightarrow> Inl e
           | Inr qql' \<Rightarrow>
               if i_state i \<noteq> initiated then Inl interview_is_already_started
               else Inr (set_next_question (questions qq)
                           (i\<lparr>i_language := lang, i_state := ongoing\<rparr>) 0, qql')))"

text \<open>
  \<^verbatim>\<open>interview::move_ahead\<close>: the stack of the whole history, the transitions of the next
  question, the search through the loops, and the localized view of the question found.
\<close>

definition move_ahead ::
  "nat \<Rightarrow> expr_host \<Rightarrow> template_library \<Rightarrow> question list \<Rightarrow> questionnaire_localization \<Rightarrow>
   interview \<Rightarrow> (error + interview \<times> localized_question) option" where
  "move_ahead n h lib qs qql i =
     (case calculate h qs (i_language i) (i_history i) empty_stack (i_history i) of
        Inl e \<Rightarrow> Some (Inl e)
      | Inr ts \<Rightarrow>
          (case i_next_question i of
             None \<Rightarrow> Some (Inl internal_error)
           | Some nq \<Rightarrow>
               (case run_transitions h qs ts (qs ! nq) of
                  Inl e \<Rightarrow> Some (Inl e)
                | Inr q1 \<Rightarrow>
                    (case calculate_new_next_question_from n h qs (i_language i) (i_history i) ts q1 of
                       None \<Rightarrow> None
                     | Some (Inl e) \<Rightarrow> Some (Inl e)
                     | Some (Inr (q, hist, ts')) \<Rightarrow>
                         (case localized_question_of h lib qs qql (i_language i) ts' q of
                            Inl e \<Rightarrow> Some (Inl e)
                          | Inr lq \<Rightarrow>
                              Some (Inr (set_next_question qs (i\<lparr>i_history := hist\<rparr>) q, lq)))))))"

text \<open>
  \<^verbatim>\<open>answer_payload::make_answer\<close>: the payload is compiled against the body of the question
  and the body of its localization. The new answer object has the identity \<open>aid\<close>.
\<close>

definition make_answer ::
  "question list \<Rightarrow> answer_payload \<Rightarrow> localizations \<Rightarrow> nat \<Rightarrow> string \<Rightarrow> nat \<Rightarrow> nat \<Rightarrow> error + answer" where
  "make_answer qs p locs aid ip el tel =
     (case (case locs of
              from_question_localization ql \<Rightarrow> (get_body (qs ! ql_question ql), ql_body ql)
            | from_template_localization tql qft \<Rightarrow> (Some (tq_body (tql_template_question tql)), tql_body tql)) of
        (None, qlb) \<Rightarrow> Inl internal_error
      | (Some qb, qlb) \<Rightarrow>
          (case answer_compile p qb qlb of
             Inl e \<Rightarrow> Inl e
           | Inr b \<Rightarrow>
               Inr \<lparr>a_id = aid, a_localizations = locs, a_ip_address = ip, a_elapsed = el,
                    a_total_elapsed = tel, a_body = b\<rparr>))"

text \<open>
  The service \<^verbatim>\<open>answer\<close>: the interview must be started and not completed; the answer to the
  next question is made and added to the history, and the interview moves ahead.
\<close>

definition answer_srv ::
  "nat \<Rightarrow> expr_host \<Rightarrow> template_library \<Rightarrow> question list \<Rightarrow> questionnaire_localization \<Rightarrow>
   interview \<Rightarrow> answer_payload \<Rightarrow> nat \<Rightarrow> (error + interview \<times> localized_question) option" where
  "answer_srv n h lib qs qql i p aid =
     (if i_state i = initiated then Some (Inl interview_is_not_started)
      else if i_state i = completed then Some (Inl interview_is_already_completed)
      else (case i_next_question i of
              None \<Rightarrow> Some (Inl internal_error)
            | Some nq \<Rightarrow>
                (case question_localizations lib qs qql (i_language i) nq of
                   Inl e \<Rightarrow> Some (Inl e)
                 | Inr locs \<Rightarrow>
                     (case make_answer qs p locs aid [] 0 0 of
                        Inl e \<Rightarrow> Some (Inl e)
                      | Inr a \<Rightarrow>
                          move_ahead n h lib qs qql (i\<lparr>i_history := i_history i @ [entry_answer a]\<rparr>)))))"

section \<open>Revising an answer (ontology.cpp, services.cpp)\<close>

text \<open>
  \<^verbatim>\<open>find_next_regular_question\<close>: loop questions are passed, the stack following, until a
  regular question is met. The loop of the source has no bound; the first argument bounds
  the number of questions visited, and the result is \<open>None\<close> when it is used up.
\<close>

fun find_next_regular_question ::
  "nat \<Rightarrow> expr_host \<Rightarrow> question list \<Rightarrow> nat \<Rightarrow> the_stack \<Rightarrow> nat \<Rightarrow> (error + nat \<times> the_stack) option" where
  "find_next_regular_question 0 h qs lang ts f = None"
| "find_next_regular_question (Suc n) h qs lang ts f =
     (case get_loop_type (qs ! f) of
        regular \<Rightarrow> Some (Inr (f, ts))
      | begin_loop \<Rightarrow>
          (case stack_process_begin_loop h qs lang ts f of
             Inl e \<Rightarrow> Some (Inl e)
           | Inr (loa, ts') \<Rightarrow>
               (case run_transitions h qs ts' (qs ! f) of
                  Inl e \<Rightarrow> Some (Inl e)
                | Inr f' \<Rightarrow> find_next_regular_question n h qs lang ts' f'))
      | end_loop \<Rightarrow>
          (case stack_process_end_loop ts of
             Inl e \<Rightarrow> Some (Inl e)
           | Inr (b, ts') \<Rightarrow>
               (case run_transitions h qs ts' (qs ! f) of
                  Inl e \<Rightarrow> Some (Inl e)
                | Inr f' \<Rightarrow> find_next_regular_question n h qs lang ts' f')))"

text \<open>
  \<^verbatim>\<open>is_impacted_by\<close> of the questions and of the entries: a question with a body is impacted
  by a question that one of its text functions takes as parameter, a begin-loop entry by the
  answer its weak link designates, nothing else is.
\<close>

definition uses_as_parameter :: "js_function \<Rightarrow> nat \<Rightarrow> bool" where
  "uses_as_parameter f q = List.member (fn_parameters f) q"

definition question_is_impacted_by :: "question \<Rightarrow> nat \<Rightarrow> bool" where
  "question_is_impacted_by q q' =
     (case kind q of
        question_with_body qb \<Rightarrow> list_ex (\<lambda>f. uses_as_parameter f q') (text_functions qb)
      | question_begin_loop oq v opnd \<Rightarrow> oq = q'
      | _ \<Rightarrow> False)"

definition entry_is_impacted_by :: "question list \<Rightarrow> entry \<Rightarrow> answer \<Rightarrow> bool" where
  "entry_is_impacted_by qs e a =
     (case e of
        entry_answer a' \<Rightarrow> question_is_impacted_by (qs ! answer_get_question a') (answer_get_question a)
      | entry_begin_loop qbl loa index \<Rightarrow> loa = a_id a
      | entry_end_loop qel \<Rightarrow> False)"

text \<open>
  \<^verbatim>\<open>process_impacted_entry\<close>: \<open>None\<close> when the text of the answered question, or the loop
  operand, differs between the previous and the new stack; otherwise the two stacks after
  the entry was recorded in them.
\<close>

definition process_impacted_entry ::
  "expr_host \<Rightarrow> question list \<Rightarrow> nat \<Rightarrow> the_stack \<Rightarrow> the_stack \<Rightarrow> answer \<Rightarrow> answer \<Rightarrow> entry \<Rightarrow>
   error + (the_stack \<times> the_stack) option" where
  "process_impacted_entry h qs lang pts nts ploa nloa e =
     (case e of
        entry_answer a \<Rightarrow>
          (case get_body (qs ! answer_get_question a) of
             None \<Rightarrow> Inl internal_error
           | Some qb \<Rightarrow>
               (case calculate_text h qs qb pts lang (get_text (get_question_localization_body a)) of
                  Inl err \<Rightarrow> Inl err
                | Inr ptxt \<Rightarrow>
                    (case calculate_text h qs qb nts lang (get_text (get_question_localization_body a)) of
                       Inl err \<Rightarrow> Inl err
                     | Inr ntxt \<Rightarrow>
                         if ptxt \<noteq> ntxt then Inr None
                         else Inr (Some (replace_answer pts a, replace_answer nts a)))))
      | entry_begin_loop qbl loa index \<Rightarrow>
          (case compute_loop_operand h qs pts lang (begin_loop_operand qs qbl) ploa of
             Inl err \<Rightarrow> Inl err
           | Inr plov \<Rightarrow>
               (case compute_loop_operand h qs nts lang (begin_loop_operand qs qbl) nloa of
                  Inl err \<Rightarrow> Inl err
                | Inr nlov \<Rightarrow>
                    if plov \<noteq> nlov then Inr None
                    else (case stack_process_begin_loop h qs lang pts qbl of
                            Inl err \<Rightarrow> Inl err
                          | Inr (pr, pts') \<Rightarrow>
                              (case stack_process_begin_loop h qs lang nts qbl of
                                 Inl err \<Rightarrow> Inl err
                               | Inr (nr, nts') \<Rightarrow> Inr (Some (pts', nts'))))))
      | entry_end_loop qel \<Rightarrow> Inl internal_error)"

text \<open>
  \<^verbatim>\<open>interview::resect\<close> removes the entries from the position on, up to the first one of the
  question. In \<^verbatim>\<open>revise_answer\<close> it runs when the question the new transitions lead to is not
  the one of the next entry: \<open>resect_unless_same\<close> is what is left of the rest of the history.
\<close>

definition resect :: "entry list \<Rightarrow> nat \<Rightarrow> entry list" where
  "resect es q = dropWhile (\<lambda>e. entry_get_question e \<noteq> q) es"

definition resect_unless_same :: "entry list \<Rightarrow> nat \<Rightarrow> entry list" where
  "resect_unless_same es nnetq =
     (case es of
        [] \<Rightarrow> []
      | nee # es' \<Rightarrow> if nnetq \<noteq> entry_get_question nee then resect es nnetq else es)"

text \<open>
  The loop of \<^verbatim>\<open>revise_answer\<close>. \<open>kept\<close> is the history before the position reached and \<open>rest\<close>
  the history from it, \<open>q\<close> the question whose transitions run next, \<open>pa\<close> and \<open>na\<close> the
  previous and the new answer, \<open>pts\<close> and \<open>nts\<close> the previous and the new stack. The result is
  the history that is left, the next regular question and the new stack.
\<close>

function revise_loop ::
  "nat \<Rightarrow> expr_host \<Rightarrow> question list \<Rightarrow> nat \<Rightarrow> entry list \<Rightarrow> entry list \<Rightarrow> nat \<Rightarrow> answer \<Rightarrow> answer \<Rightarrow>
   the_stack \<Rightarrow> the_stack \<Rightarrow> (error + entry list \<times> nat \<times> the_stack) option" where
  "revise_loop n h qs lang kept rest q pa na pts nts =
     (case run_transitions h qs nts (qs ! q) of
        Inl err \<Rightarrow> Some (Inl err)
      | Inr nnetq \<Rightarrow>
          (case resect_unless_same rest nnetq of
             [] \<Rightarrow>
               (case find_next_regular_question n h qs lang nts nnetq of
                  None \<Rightarrow> None
                | Some (Inl err) \<Rightarrow> Some (Inl err)
                | Some (Inr (f, nts')) \<Rightarrow> Some (Inr (kept, f, nts')))
           | nee # es \<Rightarrow>
               (case (if entry_is_impacted_by qs nee pa
                      then process_impacted_entry h qs lang pts nts pa na nee
                      else Inr (Some (pts, nts))) of
                  Inl err \<Rightarrow> Some (Inl err)
                | Inr None \<Rightarrow>
                    (case find_next_regular_question n h qs lang nts nnetq of
                       None \<Rightarrow> None
                     | Some (Inl err) \<Rightarrow> Some (Inl err)
                     | Some (Inr (f, nts')) \<Rightarrow> Some (Inr (kept, f, nts')))
                | Inr (Some (pts', nts')) \<Rightarrow>
                    (case process_entry h qs lang (kept @ nee # es) pts' nee of
                       Inl err \<Rightarrow> Some (Inl err)
                     | Inr pts'' \<Rightarrow>
                         (case process_entry h qs lang (kept @ nee # es) nts' nee of
                            Inl err \<Rightarrow> Some (Inl err)
                          | Inr nts'' \<Rightarrow>
                              revise_loop n h qs lang (kept @ [nee]) es nnetq pa na pts'' nts'')))))"
  by pat_completeness auto
termination
proof -
  have shorter: "length es < length rest" if "resect_unless_same rest nnetq = nee # es"
    for rest nnetq nee and es :: "entry list"
  proof -
    have "length (resect rest nnetq) \<le> length rest"
      unfolding resect_def by (rule length_dropWhile_le)
    then have "length (resect_unless_same rest nnetq) \<le> length rest"
      by (cases rest) (simp_all add: resect_unless_same_def)
    with that show ?thesis by simp
  qed
  show ?thesis
    apply (relation "measure (\<lambda>(n, h, qs, lang, kept, rest, q, pa, na, pts, nts). length rest)")
     apply simp
    apply (simp add: shorter)
    done
qed

text \<open>
  Modelled from the spec: \<^verbatim>\<open>graft\<close> belongs to the object store, whose code is not in the
  repository. The new answer replaces the previous one in place and the weak references to
  the previous answer are preserved: the answer in the entry has the content of the new
  answer under the identity of the previous one.
\<close>

definition graft :: "answer \<Rightarrow> answer \<Rightarrow> answer" where
  "graft pa na = na\<lparr>a_id := a_id pa\<rparr>"

text \<open>
  \<^verbatim>\<open>interview::revise_answer\<close> at the position \<open>pos\<close> of the history, which the service has
  found with \<^verbatim>\<open>find_answer\<close> and is inside the history: an entry that is not an answer is
  refused with \<^verbatim>\<open>internal_error\<close>. The stacks are built before the answer is grafted, and the
  loop starts at the entry after it.
\<close>

definition revise_answer ::
  "nat \<Rightarrow> expr_host \<Rightarrow> template_library \<Rightarrow> question list \<Rightarrow> questionnaire_localization \<Rightarrow>
   interview \<Rightarrow> nat \<Rightarrow> answer \<Rightarrow> (error + interview \<times> localized_question) option" where
  "revise_answer n h lib qs qql i pos na =
     (case drop pos (i_history i) of
        entry_answer pa # rest \<Rightarrow>
          if answer_get_question pa \<noteq> answer_get_question na then Some (Inl answer_is_incorrect)
          else
            (case calculate h qs (i_language i) (i_history i) empty_stack (take pos (i_history i)) of
               Inl e \<Rightarrow> Some (Inl e)
             | Inr ts \<Rightarrow>
                 (case revise_loop n h qs (i_language i)
                         (take pos (i_history i) @ [entry_answer (graft pa na)]) rest
                         (answer_get_question pa) pa na (replace_answer ts pa) (replace_answer ts na) of
                    None \<Rightarrow> None
                  | Some (Inl e) \<Rightarrow> Some (Inl e)
                  | Some (Inr (hist, f, nts)) \<Rightarrow>
                      (case localized_question_of h lib qs qql (i_language i) nts f of
                         Inl e \<Rightarrow> Some (Inl e)
                       | Inr lq \<Rightarrow> Some (Inr (set_next_question qs (i\<lparr>i_history := hist\<rparr>) f, lq)))))
      | _ \<Rightarrow> Some (Inl internal_error))"

text \<open>
  The service \<^verbatim>\<open>answer_revise\<close>: the interview must be started, the index must be the one of
  an answer of the history, whose localization the new answer is made with.
\<close>

definition answer_revise_srv ::
  "nat \<Rightarrow> expr_host \<Rightarrow> template_library \<Rightarrow> question list \<Rightarrow> questionnaire_localization \<Rightarrow>
   interview \<Rightarrow> nat \<Rightarrow> answer_payload \<Rightarrow> nat \<Rightarrow> (error + interview \<times> localized_question) option" where
  "answer_revise_srv n h lib qs qql i index p aid =
     (if i_state i = initiated then Some (Inl interview_is_not_started)
      else (case drop index (i_history i) of
              entry_answer pa # rest \<Rightarrow>
                (case make_answer qs p (a_localizations pa) aid [] 0 0 of
                   Inl e \<Rightarrow> Some (Inl e)
                 | Inr na \<Rightarrow> revise_answer n h lib qs qql i index na)
            | _ \<Rightarrow> Some (Inl answer_index_does_not_exist)))"

section \<open>Example data\<close>

text \<open>
  The choice that \<^verbatim>\<open>shared_compile\<close> and \<^verbatim>\<open>answer_select_payload::compile\<close> build from a
  payload choice whose index is in range.
\<close>

definition choice_of :: "option_localization list \<Rightarrow> choice_payload \<Rightarrow> choice" where
  "choice_of opts cp =
     \<lparr>c_option_localization = opts ! cp_index cp, c_index = cp_index cp, c_comment = cp_comment cp\<rparr>"

definition three_options :: "option_localization list" where
  "three_options =
     [\<lparr>ol_option = 0, ol_label = ''A'', ol_comment_label = ''''\<rparr>,
      \<lparr>ol_option = 1, ol_label = ''B'', ol_comment_label = ''''\<rparr>,
      \<lparr>ol_option = 2, ol_label = ''C'', ol_comment_label = ''''\<rparr>]"


definition select_at_most_two :: question_body where
  "select_at_most_two =
     \<lparr>text_functions = [], style = '''',
      variant = question_body_select_at_most False False [False, False, False] 2\<rparr>"


definition three_choices :: "choice_payload list" where
  "three_choices =
     [\<lparr>cp_index = 0, cp_comment = ''''\<rparr>, \<lparr>cp_index = 1, cp_comment = ''''\<rparr>,
      \<lparr>cp_index = 2, cp_comment = ''''\<rparr>]"

definition required_input :: question_body where
  "required_input =
     \<lparr>text_functions = [], style = '''', variant = question_body_input False False\<rparr>"

text \<open>
  A questionnaire of one input question, at change count 2 after the question was pushed,
  with a localization that has no question localization at all, and the same localization
  after it was given the question's localization.
\<close>

definition one_input_questionnaire :: questionnaire where
  "one_input_questionnaire =
     \<lparr>questions = [\<lparr>label = ''q1'', transitions = [], kind = question_with_body required_input\<rparr>],
      locked = False, change_count = 2\<rparr>"

definition empty_library :: template_library where
  "empty_library = (\<lambda>t l. None)"

definition incomplete_localization :: "32 word \<Rightarrow> questionnaire_localization" where
  "incomplete_localization c =
     \<lparr>questionnaire_change_count = c, language = 0, questions_localizations = []\<rparr>"

definition complete_localization :: "32 word \<Rightarrow> questionnaire_localization" where
  "complete_localization c =
     \<lparr>questionnaire_change_count = c, language = 0,
      questions_localizations =
        [\<lparr>ql_question = 0, ql_body = question_localization_body_input ''Name?'' ''''\<rparr>]\<rparr>"

text \<open>
  A printer for JSON values and a host for the examples: running a snippet gives the
  snippet's own code as a string, except that the snippets \<open>true\<close> and \<open>false\<close> give the
  booleans.
\<close>

fun show_json :: "json \<Rightarrow> string" where
  "show_json JNull = ''null''"
| "show_json (JBool b) = (if b then ''true'' else ''false'')"
| "show_json (JNum n) = (if n < 0 then ''-'' @ show_nat (nat (- n)) else show_nat (nat n))"
| "show_json (JStr s) = [CHR 0x22] @ s @ [CHR 0x22]"
| "show_json (JArr vs) = ''['' @ concat (map (\<lambda>v. show_json v @ '','') vs) @ '']''"
| "show_json (JObj kvs) = ''{'' @ concat (map (\<lambda>(k, v). k @ '':'' @ show_json v @ '','') kvs) @ ''}''"

definition echo_host :: expr_host where
  "echo_host =
     \<lparr>slot_js_run = (\<lambda>c args. if c = ''true'' then Some (JBool True)
                                else if c = ''false'' then Some (JBool False)
                                else Some (JStr c)),
      slot_js_compile = (\<lambda>c. True),
      v8_execute = (\<lambda>s. None),
      print_json = show_json,
      answer_data_json = (\<lambda>a. JNull),
      localized_answer_data_json = (\<lambda>a ts l. Inr JNull),
      language_str2 = (\<lambda>l. None)\<rparr>"

text \<open>A message body with twelve text functions \<open>f0\<close> to \<open>f11\<close>, none with a parameter.\<close>

definition twelve_functions :: question_body where
  "twelve_functions =
     \<lparr>text_functions =
        map (\<lambda>c. \<lparr>fn_parameters = [], fn_code = c\<rparr>)
          [''f0'', ''f1'', ''f2'', ''f3'', ''f4'', ''f5'', ''f6'', ''f7'', ''f8'', ''f9'', ''f10'', ''f11''],
      style = '''', variant = question_body_message\<rparr>"

text \<open>
  A question with a transition to question 1 under the condition \<open>false\<close>, then a catch-all to
  question 2.
\<close>

definition branching_question :: question where
  "branching_question =
     \<lparr>label = ''q0'',
      transitions =
        [\<lparr>condition = Some \<lparr>fn_parameters = [0], fn_code = ''false''\<rparr>, destination = 1\<rparr>,
         \<lparr>condition = None, destination = 2\<rparr>],
      kind = question_with_body required_input\<rparr>"

text \<open>The escape sequence of parametric text around a function number or a variable name.\<close>

definition escape :: "string \<Rightarrow> string" where
  "escape n = eval_prefix # eval_open # n @ [eval_close]"

text \<open>Source questions for the examples: a plain text, and the kinds used below.\<close>

definition plain_text :: "string \<Rightarrow> source_text option" where
  "plain_text s = Some \<lparr>src_functions = [], src_value = s\<rparr>"

definition two_options :: "source_option option list" where
  "two_options =
     [Some \<lparr>so_label = ''A'', so_comment_label = ''''\<rparr>,
      Some \<lparr>so_label = ''B'', so_comment_label = ''''\<rparr>]"

definition no_templates :: template_index where
  "no_templates = (\<lambda>name. None)"

text \<open>
  Scenario S2 of the specification, with the parameter of the condition written out: a
  select question \<open>q1\<close> that goes to \<open>q3\<close> under a condition on its own answer and to \<open>q2\<close>
  otherwise, and two messages.
\<close>

definition scenario_s2 :: source_questionnaire where
  "scenario_s2 =
     \<lparr>sqq_name = ''s2'', sqq_language = 0,
      sqq_questions =
        [Some \<lparr>sq_label = ''q1'',
               sq_transitions =
                 [Some \<lparr>st_parameters = [''q1''], st_condition = ''q1.choice.index==0'',
                        st_code = '''', st_destination = ''q3''\<rparr>,
                  Some \<lparr>st_parameters = [], st_condition = '''', st_code = '''',
                        st_destination = ''q2''\<rparr>],
               sq_kind = source_question_select '''' (plain_text ''Which?'') '''' False two_options\<rparr>,
         Some \<lparr>sq_label = ''q2'', sq_transitions = [],
               sq_kind = source_question_message '''' (plain_text ''Chose B'')\<rparr>,
         Some \<lparr>sq_label = ''q3'', sq_transitions = [],
               sq_kind = source_question_message '''' (plain_text ''Chose A'')\<rparr>]\<rparr>"

text \<open>
  The same questionnaire where the last transition of \<open>q1\<close> has no condition but has code.
\<close>

definition code_in_last_transition :: source_questionnaire where
  "code_in_last_transition =
     \<lparr>sqq_name = ''c4'', sqq_language = 0,
      sqq_questions =
        [Some \<lparr>sq_label = ''q1'',
               sq_transitions =
                 [Some \<lparr>st_parameters = [''q1''], st_condition = ''false'',
                        st_code = '''', st_destination = ''q3''\<rparr>,
                  Some \<lparr>st_parameters = [], st_condition = '''', st_code = ''false'',
                        st_destination = ''q2''\<rparr>],
               sq_kind = source_question_select '''' (plain_text ''Which?'') '''' False two_options\<rparr>,
         Some \<lparr>sq_label = ''q2'', sq_transitions = [],
               sq_kind = source_question_message '''' (plain_text ''Chose B'')\<rparr>,
         Some \<lparr>sq_label = ''q3'', sq_transitions = [],
               sq_kind = source_question_message '''' (plain_text ''Chose A'')\<rparr>]\<rparr>"

text \<open>
  What the two passes make of scenario S2: the map by label, the questions after the first
  pass, the questionnaire and its first localization.
\<close>

definition top_level_info :: "nat \<Rightarrow> question_info" where
  "top_level_info n = \<lparr>qi_index = n, qi_loop_nest = [], qi_matching_begin_loop = None\<rparr>"

definition s2_map :: question_infos_by_label_map where
  "s2_map = [(''q1'', top_level_info 0, 0), (''q2'', top_level_info 1, 1), (''q3'', top_level_info 2, 2)]"

definition s2_select :: question_kind where
  "s2_select =
     question_with_body
       \<lparr>text_functions = [], style = '''',
        variant = question_body_select False False [False, False]\<rparr>"

definition s2_message :: question_kind where
  "s2_message =
     question_with_body \<lparr>text_functions = [], style = '''', variant = question_body_message\<rparr>"

definition s2_first_pass_questions :: "question list" where
  "s2_first_pass_questions =
     [\<lparr>label = ''q1'', transitions = [], kind = s2_select\<rparr>,
      \<lparr>label = ''q2'', transitions = [], kind = s2_message\<rparr>,
      \<lparr>label = ''q3'', transitions = [], kind = s2_message\<rparr>]"

definition s2_transitions :: "transition list" where
  "s2_transitions =
     [\<lparr>condition = Some \<lparr>fn_parameters = [0], fn_code = ''q1.choice.index==0''\<rparr>, destination = 2\<rparr>,
      \<lparr>condition = Some \<lparr>fn_parameters = [], fn_code = ''''\<rparr>, destination = 1\<rparr>]"

definition s2_questionnaire :: questionnaire where
  "s2_questionnaire =
     \<lparr>questions =
        [\<lparr>label = ''q1'', transitions = s2_transitions, kind = s2_select\<rparr>,
         \<lparr>label = ''q2'', transitions = [], kind = s2_message\<rparr>,
         \<lparr>label = ''q3'', transitions = [], kind = s2_message\<rparr>],
      locked = False, change_count = 4\<rparr>"

definition s2_localization :: questionnaire_localization where
  "s2_localization =
     \<lparr>questionnaire_change_count = 0, language = 0,
      questions_localizations =
        [\<lparr>ql_question = 0,
          ql_body = question_localization_body_select ''Which?'' ''''
                      [\<lparr>ol_option = 0, ol_label = ''A'', ol_comment_label = ''''\<rparr>,
                       \<lparr>ol_option = 1, ol_label = ''B'', ol_comment_label = ''''\<rparr>]\<rparr>,
         \<lparr>ql_question = 1, ql_body = question_localization_body_message ''Chose B''\<rparr>,
         \<lparr>ql_question = 2, ql_body = question_localization_body_message ''Chose A''\<rparr>]\<rparr>"

text \<open>The questionnaire compiled from \<open>code_in_last_transition\<close>.\<close>

definition c4_questionnaire :: questionnaire where
  "c4_questionnaire =
     \<lparr>questions =
        [\<lparr>label = ''q1'',
          transitions =
            [\<lparr>condition = Some \<lparr>fn_parameters = [0], fn_code = ''false''\<rparr>, destination = 2\<rparr>,
             \<lparr>condition = Some \<lparr>fn_parameters = [], fn_code = ''false''\<rparr>, destination = 1\<rparr>],
          kind = s2_select\<rparr>,
         \<lparr>label = ''q2'', transitions = [], kind = s2_message\<rparr>,
         \<lparr>label = ''q3'', transitions = [], kind = s2_message\<rparr>],
      locked = False, change_count = 4\<rparr>"

text \<open>
  A questionnaire with a loop: an input \<open>q1\<close>, a begin loop \<open>q2\<close> on the answer to \<open>q1\<close> with
  the operand code given, an input \<open>q3\<close> inside the loop, the end loop \<open>q4\<close>, an input \<open>q5\<close> and
  a message \<open>q6\<close>. No question has a transition in the source.
\<close>

definition input_question :: "string \<Rightarrow> string \<Rightarrow> source_question option" where
  "input_question l t =
     Some \<lparr>sq_label = l, sq_transitions = [],
           sq_kind = source_question_input '''' (plain_text t) '''' False\<rparr>"

definition loop_source :: "string \<Rightarrow> source_questionnaire" where
  "loop_source opnd =
     \<lparr>sqq_name = ''loop'', sqq_language = 0,
      sqq_questions =
        [input_question ''q1'' ''How many?'',
         Some \<lparr>sq_label = ''q2'', sq_transitions = [],
               sq_kind = source_question_begin_loop ''q1'' ''v'' opnd\<rparr>,
         input_question ''q3'' ''Which one?'',
         Some \<lparr>sq_label = ''q4'', sq_transitions = [], sq_kind = source_question_end_loop\<rparr>,
         input_question ''q5'' ''Anything else?'',
         Some \<lparr>sq_label = ''q6'', sq_transitions = [],
               sq_kind = source_question_message '''' (plain_text ''Thanks'')\<rparr>]\<rparr>"

text \<open>What is compiled from it, and the localization before and after it was checked.\<close>

definition loop_input :: question_kind where
  "loop_input =
     question_with_body
       \<lparr>text_functions = [], style = '''', variant = question_body_input False False\<rparr>"

definition loop_questions :: "string \<Rightarrow> question list" where
  "loop_questions opnd =
     [\<lparr>label = ''q1'', transitions = [\<lparr>condition = None, destination = 1\<rparr>], kind = loop_input\<rparr>,
      \<lparr>label = ''q2'', transitions = [\<lparr>condition = None, destination = 2\<rparr>],
       kind = question_begin_loop 0 ''v'' opnd\<rparr>,
      \<lparr>label = ''q3'', transitions = [\<lparr>condition = None, destination = 3\<rparr>], kind = loop_input\<rparr>,
      \<lparr>label = ''q4'', transitions = [\<lparr>condition = None, destination = 4\<rparr>],
       kind = question_end_loop\<rparr>,
      \<lparr>label = ''q5'', transitions = [\<lparr>condition = None, destination = 5\<rparr>], kind = loop_input\<rparr>,
      \<lparr>label = ''q6'', transitions = [], kind = s2_message\<rparr>]"

definition loop_questionnaire :: "string \<Rightarrow> questionnaire" where
  "loop_questionnaire opnd = \<lparr>questions = loop_questions opnd, locked = False, change_count = 7\<rparr>"

definition loop_question_localization :: "nat \<Rightarrow> question_localization" where
  "loop_question_localization q =
     \<lparr>ql_question = q,
      ql_body = (if q = 0 then question_localization_body_input ''How many?'' ''''
                 else if q = 2 then question_localization_body_input ''Which one?'' ''''
                 else if q = 4 then question_localization_body_input ''Anything else?'' ''''
                 else question_localization_body_message ''Thanks'')\<rparr>"

definition loop_localization :: "32 word \<Rightarrow> questionnaire_localization" where
  "loop_localization c =
     \<lparr>questionnaire_change_count = c, language = 0,
      questions_localizations = map loop_question_localization [0, 2, 4, 5]\<rparr>"

text \<open>
  A host for it. The serializers give null for every answer, so that the programs of the
  loop operand start with \<^verbatim>\<open>let q1=null;\<close>. For the operand \<^verbatim>\<open>R=[1,2]\<close> the host gives the
  array to the program that asks for the operand and its elements to the programs that ask
  for the values at the indices 0 and 1; for the operand \<^verbatim>\<open>R=[]\<close> it gives the empty array,
  and null for the value at the index 0.
\<close>

definition loop_program :: "string \<Rightarrow> string \<Rightarrow> string" where
  "loop_program opnd rest =
     ''{let R=null;let q1=null;'' @ opnd @ '';if(R==undefined){null}else'' @ rest"

definition value_at :: "string \<Rightarrow> string" where
  "value_at n = ''{R=R['' @ n @ ''];if(R==undefined){null}else R}}''"

definition loop_host :: expr_host where
  "loop_host =
     echo_host\<lparr>v8_execute :=
       (\<lambda>s. if s = loop_program ''R=[1,2]'' '' R}'' then Some (JArr [JNum 1, JNum 2])
            else if s = loop_program ''R=[1,2]'' (value_at ''0'') then Some (JNum 1)
            else if s = loop_program ''R=[1,2]'' (value_at ''1'') then Some (JNum 2)
            else if s = loop_program ''R=[]'' '' R}'' then Some (JArr [])
            else if s = loop_program ''R=[]'' (value_at ''0'') then Some JNull
            else None)\<rparr>"

text \<open>
  The answers of an interview on this questionnaire: the answer of identity \<open>n\<close> to the
  question \<open>q\<close> with the text \<open>t\<close>.
\<close>

definition input_answer :: "nat \<Rightarrow> nat \<Rightarrow> string \<Rightarrow> answer" where
  "input_answer n q t =
     \<lparr>a_id = n, a_localizations = from_question_localization (loop_question_localization q),
      a_ip_address = [], a_elapsed = 0, a_total_elapsed = 0, a_body = answer_body_input t ''''\<rparr>"

definition new_interview :: interview where
  "new_interview = \<lparr>i_language = 0, i_history = [], i_state = initiated, i_next_question = None\<rparr>"

definition ongoing_interview :: "entry list \<Rightarrow> nat \<Rightarrow> interview" where
  "ongoing_interview hist q =
     \<lparr>i_language = 0, i_history = hist, i_state = ongoing, i_next_question = Some q\<rparr>"

text \<open>
  The history of the interview where the loop has run twice, on the two elements of the
  operand, and the question after the loop is the next one.
\<close>

definition two_iterations :: "entry list" where
  "two_iterations =
     [entry_answer (input_answer 1 0 ''2''), entry_begin_loop 1 1 0,
      entry_answer (input_answer 2 2 ''a''), entry_end_loop 3,
      entry_answer (input_answer 3 2 ''b''), entry_end_loop 3]"

definition localized :: "string \<Rightarrow> string \<Rightarrow> localized_question" where
  "localized l t = \<lparr>lq_label = l, lq_text = t, lq_final = False\<rparr>"

text \<open>
  The stack after the answer to \<open>q1\<close>, and the frame that entering the loop on the operand
  \<^verbatim>\<open>R=[1,2]\<close> pushes on it.
\<close>

definition stack_after_q1 :: the_stack where
  "stack_after_q1 = replace_answer empty_stack (input_answer 1 0 ''2'')"

definition first_frame :: the_stack_frame where
  "first_frame =
     \<lparr>sf_question_begin_loop = 1, sf_loop_operand_answer = input_answer 1 0 ''2'',
      sf_loop_operand = JArr [JNum 1, JNum 2], sf_loop_operand_size = 2, sf_index = 0,
      sf_answers_by_question_map = Map.empty\<rparr>"

section \<open>Validation of submitted answers\<close>

lemma walk_options_nth: "i < length opts \<Longrightarrow> walk_options opts i = Inr (opts ! i)"
  by (induction opts i rule: walk_options.induct) (auto simp: nth_Cons')

lemma find_option_localization_eq:
  "find_option_localization opts i =
     (if length opts \<le> i then Inl selection_is_invalid else Inr (opts ! i))"
  by (simp add: find_option_localization_def walk_options_nth)

lemma shared_compile_choices_eq:
  "shared_compile_choices opts cps =
     (if \<forall>cp\<in>set cps. cp_index cp < length opts then Inr (map (choice_of opts) cps)
      else Inl selection_is_invalid)"
  by (induction cps) (auto simp: find_option_localization_eq choice_of_def)

text \<open>
  Claim C2, as the code has it. A Select payload is refused with \<open>answer_is_incorrect\<close> when
  its choice is missing or its option index is not below the number of options, and is
  accepted otherwise. A multiple-choice payload is refused with \<open>answer_is_incorrect\<close> exactly
  when its list is longer than the limit (SelectAtMost, RankAtMost) or of another size than
  the limit (SelectExactly, RankExactly). An Input payload is always accepted, whatever its
  text and whether or not the question is optional.
\<close>

theorem answer_validation:
  "(cast_with_options qlb = Inr opts \<longrightarrow>
      answer_compile (answer_select_payload ch com) qb qlb =
        (case ch of
           None \<Rightarrow> Inl answer_is_incorrect
         | Some cp \<Rightarrow>
             if cp_index cp \<ge> length opts then Inl answer_is_incorrect
             else Inr (answer_body_select (choice_of opts cp) com))) \<and>
   (cast_with_options qlb = Inr opts \<and> variant qb = question_body_select_at_most r h os l \<longrightarrow>
      (answer_compile (answer_select_at_most_payload cps com) qb qlb = Inl answer_is_incorrect
         \<longleftrightarrow> length cps > l)) \<and>
   (cast_with_options qlb = Inr opts \<and> variant qb = question_body_rank_at_most r h os l \<longrightarrow>
      (answer_compile (answer_rank_at_most_payload cps com) qb qlb = Inl answer_is_incorrect
         \<longleftrightarrow> length cps > l)) \<and>
   (cast_with_options qlb = Inr opts \<and> variant qb = question_body_select_limit r h os l \<longrightarrow>
      (answer_compile (answer_select_limit_payload cps com) qb qlb = Inl answer_is_incorrect
         \<longleftrightarrow> length cps \<noteq> l)) \<and>
   (cast_with_options qlb = Inr opts \<and> variant qb = question_body_rank_limit r h os l \<longrightarrow>
      (answer_compile (answer_rank_limit_payload cps com) qb qlb = Inl answer_is_incorrect
         \<longleftrightarrow> length cps \<noteq> l)) \<and>
   answer_compile (answer_input_payload inp com) qb qlb = Inr (answer_body_input inp com)"
  by (auto simp: shared_compile_def shared_compile_choices_eq find_option_localization_eq
        choice_of_def split: option.splits)

text \<open>
  The theorem at work: option index 5 of 3 options and three choices for a limit of two are
  refused, an empty text for a required input is accepted.
\<close>

theorem answer_validation_witness:
  "cast_with_options (question_localization_body_select ''Pick'' '''' three_options) = Inr three_options \<and>
   answer_compile (answer_select_payload (Some \<lparr>cp_index = 5, cp_comment = ''''\<rparr>) '''')
       select_at_most_two (question_localization_body_select ''Pick'' '''' three_options)
     = Inl answer_is_incorrect \<and>
   variant select_at_most_two = question_body_select_at_most False False [False, False, False] 2 \<and>
   answer_compile (answer_select_at_most_payload three_choices '''')
       select_at_most_two (question_localization_body_select ''Pick'' '''' three_options)
     = Inl answer_is_incorrect \<and>
   answer_compile (answer_input_payload '''' '''') required_input
       (question_localization_body_select ''Pick'' '''' three_options)
     = Inr (answer_body_input '''' '''')"
  using answer_validation [of "question_localization_body_select ''Pick'' '''' three_options"
      three_options "Some \<lparr>cp_index = 5, cp_comment = ''''\<rparr>" "''''" select_at_most_two
      False False "[False, False, False]" 2 three_choices "''''"]
  by (simp add: three_options_def select_at_most_two_def three_choices_def)

text \<open>
  Claim C2 as the specification states it asks that a required input with an empty text be
  refused. The code accepts it: the question is not optional and the answer is built.
\<close>

theorem required_input_empty_counterexample:
  "\<not> is_optional (variant required_input) \<and>
   answer_compile (answer_input_payload '''' '''') required_input
       (question_localization_body_input ''Name?'' '''')
     = Inr (answer_body_input '''' '''')"
  by (simp add: required_input_def)



section \<open>The lazy check of a questionnaire localization\<close>

text \<open>
  Claim C8. When the count stored in the localization is the questionnaire's change count,
  \<open>check\<close> returns the localization as it is, whatever the questionnaire, the localization
  and the template library contain. And when a check has succeeded, its result is the
  localization with the questionnaire's change count stored in it; a second check of that
  result returns it again, against the same questionnaire and against any questionnaire
  with the same change count, under any template library: it cannot fail.
\<close>

theorem check_noop_when_counts_match:
  "(questionnaire_change_count qql = change_count qq \<longrightarrow> check lib qq qql = Inr qql) \<and>
   (check lib qq qql = Inr qql' \<longrightarrow>
      questionnaire_change_count qql' = change_count qq \<and>
      qql' = qql\<lparr>questionnaire_change_count := change_count qq\<rparr> \<and>
      check lib qq qql' = Inr qql' \<and>
      (change_count qq' = change_count qq \<longrightarrow> check lib' qq' qql' = Inr qql'))"
proof (intro conjI impI)
  assume "questionnaire_change_count qql = change_count qq"
  then show "check lib qq qql = Inr qql"
    by (simp add: check_def)
next
  assume ok: "check lib qq qql = Inr qql'"
  then show stored: "questionnaire_change_count qql' = change_count qq"
    by (auto simp: check_def split: if_splits sum.splits)
  from ok show "qql' = qql\<lparr>questionnaire_change_count := change_count qq\<rparr>"
    by (auto simp: check_def split: if_splits sum.splits)
  from stored show "check lib qq qql' = Inr qql'"
    by (simp add: check_def)
  assume "change_count qq' = change_count qq"
  with stored show "check lib' qq' qql' = Inr qql'"
    by (simp add: check_def)
qed

text \<open>
  With equal counts the check succeeds on a localization that \<open>force_check\<close> refuses, so no
  validation was done; and a localization checked at count 0 is stored at count 2 and
  passes again, also against a questionnaire of the same count that has lost its question.
\<close>

theorem check_noop_when_counts_match_witness:
  "questionnaire_change_count (incomplete_localization 2) = change_count one_input_questionnaire \<and>
   force_check empty_library one_input_questionnaire (incomplete_localization 2)
     = Inl question_localization_does_not_exist \<and>
   check empty_library one_input_questionnaire (incomplete_localization 2)
     = Inr (incomplete_localization 2) \<and>
   check empty_library one_input_questionnaire (complete_localization 0)
     = Inr (complete_localization 2) \<and>
   questionnaire_change_count (complete_localization 2) = change_count one_input_questionnaire \<and>
   complete_localization 2 =
     (complete_localization 0)\<lparr>questionnaire_change_count := change_count one_input_questionnaire\<rparr> \<and>
   check empty_library one_input_questionnaire (complete_localization 2)
     = Inr (complete_localization 2) \<and>
   change_count (one_input_questionnaire\<lparr>questions := []\<rparr>) = change_count one_input_questionnaire \<and>
   check (\<lambda>t l. None) (one_input_questionnaire\<lparr>questions := []\<rparr>) (complete_localization 2)
     = Inr (complete_localization 2)"
proof -
  have a: "questionnaire_change_count (incomplete_localization 2) = change_count one_input_questionnaire"
    by (simp add: incomplete_localization_def one_input_questionnaire_def)
  have b: "force_check empty_library one_input_questionnaire (incomplete_localization 2)
     = Inl question_localization_does_not_exist"
    by (simp add: force_check_def incomplete_localization_def one_input_questionnaire_def)
  have c: "check empty_library one_input_questionnaire (complete_localization 0)
     = Inr (complete_localization 2)"
    by (simp add: check_def force_check_def complete_localization_def one_input_questionnaire_def)
  have d: "change_count (one_input_questionnaire\<lparr>questions := []\<rparr>) = change_count one_input_questionnaire"
    by simp
  note first = check_noop_when_counts_match [where lib = empty_library
      and qq = one_input_questionnaire and qql = "incomplete_localization 2", THEN conjunct1, THEN mp, OF a]
  note second = check_noop_when_counts_match [where lib = empty_library
      and qq = one_input_questionnaire and qql = "complete_localization 0"
      and qql' = "complete_localization 2" and qq' = "one_input_questionnaire\<lparr>questions := []\<rparr>"
      and lib' = "\<lambda>t l. None", THEN conjunct2, THEN mp, OF c]
  note stored = second [THEN conjunct1]
  note updated = second [THEN conjunct2, THEN conjunct1]
  note again = second [THEN conjunct2, THEN conjunct2, THEN conjunct1]
  note other = second [THEN conjunct2, THEN conjunct2, THEN conjunct2, THEN mp, OF d]
  from a b first c stored updated again d other show ?thesis
    by (intro conjI)
qed

section \<open>Running transitions\<close>

lemma run_transitions_from_skip:
  "\<forall>u\<in>set pre. transition_run h qs ts u = Inr None \<Longrightarrow>
   run_transitions_from h qs ts (pre @ trs) = run_transitions_from h qs ts trs"
  by (induction pre) auto

lemma run_transitions_from_split:
  "run_transitions_from h qs ts trs = Inr d \<Longrightarrow>
   \<exists>pre t post. trs = pre @ t # post \<and> (\<forall>u\<in>set pre. transition_run h qs ts u = Inr None) \<and>
      transition_run h qs ts t = Inr (Some d)"
proof (induction trs)
  case Nil
  then show ?case by simp
next
  case (Cons a trs)
  show ?case
  proof (cases "transition_run h qs ts a = Inr None")
    case True
    with Cons.prems have "run_transitions_from h qs ts trs = Inr d" by simp
    from Cons.IH [OF this] obtain pre t post where
      "trs = pre @ t # post" "\<forall>u\<in>set pre. transition_run h qs ts u = Inr None"
      "transition_run h qs ts t = Inr (Some d)" by blast
    with True have "a # trs = (a # pre) @ t # post \<and>
        (\<forall>u\<in>set (a # pre). transition_run h qs ts u = Inr None) \<and>
        transition_run h qs ts t = Inr (Some d)" by simp
    then show ?thesis by blast
  next
    case False
    with Cons.prems have "transition_run h qs ts a = Inr (Some d)"
      by (auto split: sum.splits option.splits)
    then have "a # trs = [] @ a # trs \<and> (\<forall>u\<in>set []. transition_run h qs ts u = Inr None) \<and>
        transition_run h qs ts a = Inr (Some d)" by simp
    then show ?thesis by blast
  qed
qed

lemma run_transitions_from_Inr:
  "run_transitions_from h qs ts trs = Inr d \<longleftrightarrow>
     (\<exists>pre t post. trs = pre @ t # post \<and> (\<forall>u\<in>set pre. transition_run h qs ts u = Inr None) \<and>
        transition_run h qs ts t = Inr (Some d))"
proof
  assume "run_transitions_from h qs ts trs = Inr d"
  then show "\<exists>pre t post. trs = pre @ t # post \<and>
      (\<forall>u\<in>set pre. transition_run h qs ts u = Inr None) \<and> transition_run h qs ts t = Inr (Some d)"
    by (rule run_transitions_from_split)
next
  assume "\<exists>pre t post. trs = pre @ t # post \<and>
      (\<forall>u\<in>set pre. transition_run h qs ts u = Inr None) \<and> transition_run h qs ts t = Inr (Some d)"
  then show "run_transitions_from h qs ts trs = Inr d"
    by (auto simp: run_transitions_from_skip)
qed

lemma run_transitions_from_catch_all:
  "trs \<noteq> [] \<Longrightarrow> condition_is_empty (last trs) \<Longrightarrow>
   run_transitions_from h qs ts trs \<noteq> Inl internal_error"
proof (induction trs)
  case Nil
  then show ?case by simp
next
  case (Cons a trs)
  then show ?case
    by (cases "trs = []")
       (auto simp: transition_run_def condition_is_empty_def split: option.splits sum.splits if_splits)
qed

text \<open>
  Claim C6. \<open>run_transitions\<close> returns a destination exactly when the question's transitions
  split into a prefix of transitions that all ran to null, followed by a transition that ran
  to that destination: the transitions are tried in list order and the first that is taken
  decides. A transition runs to its destination exactly when its condition is empty or
  evaluates to a true value, and to null exactly when its condition is not empty and
  evaluates to a value that is not true. For a question whose last transition is a
  catch-all, the fall-through that throws \<open>internal_error\<close> cannot happen.
\<close>

theorem run_transitions_first_match:
  "(run_transitions h qs ts q = Inr d \<longleftrightarrow>
      (\<exists>pre t post. transitions q = pre @ t # post \<and>
         (\<forall>u\<in>set pre. transition_run h qs ts u = Inr None) \<and>
         transition_run h qs ts t = Inr (Some d))) \<and>
   (transition_run h qs ts t = Inr (Some d) \<longleftrightarrow>
      destination t = d \<and>
      (condition_is_empty t \<or>
       (\<exists>c v. condition t = Some c \<and>
          slot_js_run h (fn_code c) (condition_arguments h qs ts (fn_parameters c)) = Some v \<and>
          json_is_true v))) \<and>
   (transition_run h qs ts t = Inr None \<longleftrightarrow>
      (\<exists>c v. condition t = Some c \<and> fn_code c \<noteq> [] \<and>
          slot_js_run h (fn_code c) (condition_arguments h qs ts (fn_parameters c)) = Some v \<and>
          \<not> json_is_true v)) \<and>
   (transitions q \<noteq> [] \<and> condition_is_empty (last (transitions q)) \<longrightarrow>
      run_transitions h qs ts q \<noteq> Inl internal_error)"
proof (intro conjI)
  show "run_transitions h qs ts q = Inr d \<longleftrightarrow>
      (\<exists>pre t post. transitions q = pre @ t # post \<and>
         (\<forall>u\<in>set pre. transition_run h qs ts u = Inr None) \<and>
         transition_run h qs ts t = Inr (Some d))"
    unfolding run_transitions_def by (rule run_transitions_from_Inr)
  show "transition_run h qs ts t = Inr (Some d) \<longleftrightarrow>
      destination t = d \<and>
      (condition_is_empty t \<or>
       (\<exists>c v. condition t = Some c \<and>
          slot_js_run h (fn_code c) (condition_arguments h qs ts (fn_parameters c)) = Some v \<and>
          json_is_true v))"
    by (auto simp: transition_run_def condition_is_empty_def split: option.splits)
  show "transition_run h qs ts t = Inr None \<longleftrightarrow>
      (\<exists>c v. condition t = Some c \<and> fn_code c \<noteq> [] \<and>
          slot_js_run h (fn_code c) (condition_arguments h qs ts (fn_parameters c)) = Some v \<and>
          \<not> json_is_true v)"
    by (auto simp: transition_run_def split: option.splits)
  show "transitions q \<noteq> [] \<and> condition_is_empty (last (transitions q)) \<longrightarrow>
      run_transitions h qs ts q \<noteq> Inl internal_error"
    unfolding run_transitions_def using run_transitions_from_catch_all by blast
qed


text \<open>
  A question with a transition whose condition is false and a final catch-all goes to the
  destination of the catch-all.
\<close>

theorem run_transitions_first_match_witness:
  "transitions branching_question \<noteq> [] \<and>
   condition_is_empty (last (transitions branching_question)) \<and>
   transition_run echo_host [branching_question] empty_stack (hd (transitions branching_question))
     = Inr None \<and>
   run_transitions echo_host [branching_question] empty_stack branching_question = Inr 2 \<and>
   run_transitions echo_host [branching_question] empty_stack branching_question \<noteq> Inl internal_error"
proof -
  let ?t1 = "\<lparr>condition = Some \<lparr>fn_parameters = [0], fn_code = ''false''\<rparr>, destination = 1\<rparr>"
  let ?t2 = "\<lparr>condition = None, destination = 2\<rparr>"
  have trs: "transitions branching_question = [?t1] @ ?t2 # []"
    by (simp add: branching_question_def)
  have t1: "\<forall>u\<in>set [?t1]. transition_run echo_host [branching_question] empty_stack u = Inr None"
    by (simp add: transition_run_def echo_host_def)
  have t2: "transition_run echo_host [branching_question] empty_stack ?t2 = Inr (Some 2)"
    by (simp add: transition_run_def)
  have last: "condition_is_empty (last (transitions branching_question))"
    by (simp add: branching_question_def condition_is_empty_def)
  from trs t1 t2 have ex: "\<exists>pre t post. transitions branching_question = pre @ t # post \<and>
         (\<forall>u\<in>set pre. transition_run echo_host [branching_question] empty_stack u = Inr None) \<and>
         transition_run echo_host [branching_question] empty_stack t = Inr (Some 2)"
    by blast
  show ?thesis
    using run_transitions_first_match [of echo_host "[branching_question]" empty_stack
        branching_question 2 ?t2] ex last trs t1
    by simp
qed

section \<open>Parametric text\<close>

text \<open>
  Claim C9 asks that the escape of a decimal number \<open>N\<close> call the text function of index \<open>N\<close>
  and that a string result be inserted without quotes, also when it is reused. The code
  evaluated on a body of twelve functions, where function \<open>i\<close> returns the string \<open>fi\<close>: the
  escape of 10 inserts the result of function 11, because each digit after the first is
  accumulated by \<^verbatim>\<open>funcn += funcn * 10 + c - '0'\<close>; and the second escape of 0 in a text inserts
  the memoized string as the JSON printer writes it, between double quotes.
\<close>

theorem function_number_defect:
  "length (text_functions twelve_functions) = 12 \<and>
   calculate_text echo_host [] twelve_functions empty_stack 0 (''call '' @ escape ''10'') = Inr ''call f11'' \<and>
   calculate_text echo_host [] twelve_functions empty_stack 0 (escape ''0'' @ '' and '' @ escape ''0'')
     = Inr (''f0 and '' @ [CHR 0x22] @ ''f0'' @ [CHR 0x22])"
  by code_simp

section \<open>The compiler\<close>

lemma s2_compiles:
  "compile echo_host no_templates scenario_s2 = Inr (s2_questionnaire, s2_localization)"
  by code_simp

lemma s2_transitions_compile:
  "compile_transitions echo_host s2_map (top_level_info 0) s2_first_pass_questions 0
     (the (hd (sqq_questions scenario_s2))) = Inr s2_transitions"
  by code_simp

lemma make_question_transitions:
  "make_question l k = Inr q \<Longrightarrow> transitions q = [] \<and> label q = l"
  by (auto simp: make_question_def split: if_splits)

lemma tmpl_compile_transitions:
  "tmpl_compile mb ml n l sty txt cl rnd opts lim = Inr (q, oql) \<Longrightarrow> transitions q = []"
  by (auto simp: tmpl_compile_def Let_def dest!: make_question_transitions
      split: if_splits sum.splits prod.splits)

lemma compile_question_transitions:
  "compile_question tqs qs m n sq = Inr (q, oql) \<Longrightarrow> transitions q = []"
  by (cases "sq_kind sq")
     (auto dest!: make_question_transitions tmpl_compile_transitions
      split: if_splits sum.splits prod.splits option.splits)

lemma map_of_append_new:
  "map_of m l = None \<Longrightarrow> map_of (m @ [(l, v)]) l' = (if l' = l then Some v else map_of m l')"
  by (induction m) auto

lemma first_pass_step_inv:
  assumes "first_pass_inv st" and "first_pass_step tqs st osq = Inr st'"
  shows "first_pass_inv st'"
proof -
  note [simp del] = compile_question.simps get_loop_type.simps
  from assms(2) obtain sq where sq: "osq = Some sq"
    by (cases osq) (auto simp: first_pass_step_def)
  from assms(2) sq obtain q oql where
    cq: "compile_question tqs (questions (fp_questionnaire st)) (fp_map st) (fp_qn st) sq = Inr (q, oql)"
    by (cases "compile_question tqs (questions (fp_questionnaire st)) (fp_map st) (fp_qn st) sq")
       (auto simp: first_pass_step_def)
  from assms(2) sq cq obtain qq where push: "push_question_back (fp_questionnaire st) q = Inr qq"
    by (cases "push_question_back (fp_questionnaire st) q") (auto simp: first_pass_step_def)
  from assms(2) sq cq push have new: "map_of (fp_map st) (label q) = None"
    by (cases "map_of (fp_map st) (label q)") (auto simp: first_pass_step_def)
  from push have qs: "questions qq = questions (fp_questionnaire st) @ [q]"
    by (auto simp: push_question_back_def split: if_splits)
  from assms(2) sq cq push new obtain info where
    st': "fp_questionnaire st' = qq" "fp_qn st' = Suc (fp_qn st)"
         "fp_map st' = fp_map st @ [(label q, info, fp_qn st)]" "qi_index info = fp_qn st"
    by (auto simp: first_pass_step_def Let_def split: if_splits)
  from assms(1) have n: "fp_qn st = length (questions (fp_questionnaire st))"
    and mok: "map_ok (fp_map st) (fp_qn st)"
    and lok: "labels_ok (fp_map st) (questions (fp_questionnaire st))"
    and tr: "\<forall>q \<in> set (questions (fp_questionnaire st)). transitions q = []"
    by (auto simp: first_pass_inv_def)
  have 1: "fp_qn st' = length (questions (fp_questionnaire st'))"
    using st' qs n by simp
  have 2: "map_ok (fp_map st') (fp_qn st')"
    using mok st' new unfolding map_ok_def
    by (auto simp: map_of_append_new less_Suc_eq simp del: map_of_append split: if_splits)
  have 3: "labels_ok (fp_map st') (questions (fp_questionnaire st'))"
    unfolding labels_ok_def
  proof (intro allI impI)
    fix j assume j: "j < length (questions (fp_questionnaire st'))"
    show "\<exists>info. map_of (fp_map st') (label (questions (fp_questionnaire st') ! j)) = Some (info, j)"
    proof (cases "j < length (questions (fp_questionnaire st))")
      case True
      with lok obtain i where i: "map_of (fp_map st) (label (questions (fp_questionnaire st) ! j)) = Some (i, j)"
        by (auto simp: labels_ok_def)
      with new have "label (questions (fp_questionnaire st) ! j) \<noteq> label q" by auto
      with i True show ?thesis
        using st' qs new by (simp add: map_of_append_new nth_append del: map_of_append)
    next
      case False
      with j st' qs have "j = length (questions (fp_questionnaire st))" by simp
      then show ?thesis
        using st' qs new n by (simp add: map_of_append_new nth_append del: map_of_append)
    qed
  qed
  have 4: "\<forall>q \<in> set (questions (fp_questionnaire st')). transitions q = []"
    using tr st' qs compile_question_transitions [OF cq] by auto
  from 1 2 3 4 show ?thesis by (simp add: first_pass_inv_def)
qed

lemma first_pass_loop_inv:
  "first_pass_inv st \<Longrightarrow> first_pass_loop tqs st osqs = Inr st' \<Longrightarrow> first_pass_inv st'"
proof (induction osqs arbitrary: st)
  case Nil
  then show ?case by simp
next
  case (Cons a osqs)
  then show ?case
    by (auto split: sum.splits dest: first_pass_step_inv)
qed

lemma compile_transitions_loop_forward:
  assumes "map_ok m (length qs)"
    and "compile_transitions_loop h m qs q qn qpbl sts pushed = Inr trs"
    and "\<forall>t \<in> set pushed. qn < destination t \<and> destination t < length qs"
  shows "\<forall>t \<in> set trs. qn < destination t \<and> destination t < length qs"
  using assms(2,3)
proof (induction sts arbitrary: pushed)
  case Nil
  then show ?case by simp
next
  case (Cons ot rest)
  from Cons.prems(1) obtain t dqi dq ps where
    ot: "ot = Some t" and d: "map_of m (st_destination t) = Some (dqi, dq)"
    and lt: "qn < qi_index dqi"
    and rec: "compile_transitions_loop h m qs q qn qpbl rest
        (pushed @ [\<lparr>condition = Some \<lparr>fn_parameters = ps,
             fn_code = (if st_condition t \<noteq> [] then st_condition t else st_code t)\<rparr>,
           destination = dq\<rparr>]) = Inr trs"
    by (auto simp: Let_def split: option.splits if_splits sum.splits prod.splits)
  from d assms(1) have "qi_index dqi = dq" "dq < length qs" by (auto simp: map_ok_def)
  with lt Cons.prems(2) show ?case
    by (intro Cons.IH [OF rec]) auto
qed

lemma compile_transitions_forward:
  assumes "map_ok m (length qs)" and "qi_index qqi = q"
    and "compile_transitions h m qqi qs q sq = Inr trs"
  shows "\<forall>t \<in> set trs. q < destination t \<and> destination t < length qs"
proof (cases "sq_transitions sq = []")
  case True
  with assms(3) show ?thesis
    by (auto simp: compile_transitions_def split: if_splits)
next
  case False
  with assms(3) have "compile_transitions_loop h m qs q (qi_index qqi) (get_parent_begin_loop qqi)
      (sq_transitions sq) [] = Inr trs"
    by (auto simp: compile_transitions_def split: option.splits if_splits)
  from compile_transitions_loop_forward [OF assms(1) this] assms(2) show ?thesis by simp
qed

lemma compile_more_same:
  "compile_more m qi q sq = Inr q' \<Longrightarrow> transitions q' = transitions q \<and> label q' = label q"
  by (auto simp: compile_more_def split: option.splits question_kind.splits sum.splits)

lemma source_question_compile_result:
  assumes "source_question_compile h m qqi qs q sq = Inr q'"
  shows "\<exists>trs. compile_transitions h m qqi qs q sq = Inr trs \<and>
           transitions q' = transitions (qs ! q) @ trs \<and> label q' = label (qs ! q)"
  using assms
  by (auto simp: source_question_compile_def split: sum.splits dest!: compile_more_same)

lemma second_pass_loop_forward:
  assumes "map_ok m (length qs)" and "labels_ok m qs" and "forward_upto qs qn"
    and "second_pass_loop h m qs qn osqs = Inr qs'"
  shows "length qs' = length qs \<and> forward_upto qs' (qn + length osqs) \<and> labels_ok m qs'"
  using assms
proof (induction osqs arbitrary: qs qn)
  case Nil
  then show ?case by simp
next
  case (Cons osq osqs)
  from Cons.prems(4) obtain sq qqi p q' where
    osq: "osq = Some sq" and qn: "qn < length qs"
    and look: "map_of m (label (qs ! qn)) = Some (qqi, p)"
    and comp: "source_question_compile h m qqi qs qn sq = Inr q'"
    and rec: "second_pass_loop h m (qs[qn := q']) (Suc qn) osqs = Inr qs'"
    by (auto split: option.splits if_splits sum.splits prod.splits)
  from Cons.prems(2) qn look have p: "p = qn" by (auto simp: labels_ok_def)
  with Cons.prems(1) look have idx: "qi_index qqi = qn" by (auto simp: map_ok_def)
  from source_question_compile_result [OF comp] obtain trs where
    trs: "compile_transitions h m qqi qs qn sq = Inr trs"
    and q': "transitions q' = transitions (qs ! qn) @ trs" "label q' = label (qs ! qn)"
    by blast
  from Cons.prems(3) qn have "transitions (qs ! qn) = []" by (auto simp: forward_upto_def)
  with q' have tq': "transitions q' = trs" by simp
  from compile_transitions_forward [OF Cons.prems(1) idx trs]
  have fw: "\<forall>t \<in> set trs. qn < destination t \<and> destination t < length qs" .
  have 1: "map_ok m (length (qs[qn := q']))" using Cons.prems(1) by simp
  have 2: "labels_ok m (qs[qn := q'])"
    using Cons.prems(2) q'(2) qn by (auto simp: labels_ok_def nth_list_update)
  have fwa: "i < destination t \<and> destination t < length (qs[qn := q'])"
    if a: "i < length (qs[qn := q']) \<and> i < Suc qn \<and> t \<in> set (transitions (qs[qn := q'] ! i))"
    for i t
  proof (cases "i = qn")
    case True
    with a qn tq' fw show ?thesis by simp
  next
    case False
    with a have "i < length qs \<and> i < qn \<and> t \<in> set (transitions (qs ! i))" by simp
    with Cons.prems(3) show ?thesis by (simp add: forward_upto_def)
  qed
  have fwb: "transitions (qs[qn := q'] ! i) = []"
    if "i < length (qs[qn := q']) \<and> Suc qn \<le> i" for i
    using that Cons.prems(3) by (simp add: forward_upto_def)
  have 3: "forward_upto (qs[qn := q']) (Suc qn)"
    unfolding forward_upto_def using fwa fwb by blast
  from Cons.IH [OF 1 2 3 rec] show ?case by simp
qed

lemma first_pass_loop_count:
  "first_pass_loop tqs st osqs = Inr st' \<Longrightarrow> fp_qn st' = fp_qn st + length osqs"
proof (induction osqs arbitrary: st)
  case Nil
  then show ?case by simp
next
  case (Cons a osqs)
  from Cons.prems obtain st1 where s: "first_pass_step tqs st a = Inr st1"
    and r: "first_pass_loop tqs st1 osqs = Inr st'"
    by (auto split: sum.splits)
  from s have "fp_qn st1 = Suc (fp_qn st)"
    by (auto simp: first_pass_step_def Let_def simp del: compile_question.simps get_loop_type.simps
        split: option.splits sum.splits prod.splits if_splits)
  with Cons.IH [OF r] show ?case by simp
qed

lemma labels_ok_distinct:
  "labels_ok m qs \<Longrightarrow> i < length qs \<Longrightarrow> j < length qs \<Longrightarrow> i \<noteq> j \<Longrightarrow>
   label (qs ! i) \<noteq> label (qs ! j)"
  by (auto simp: labels_ok_def) (metis Pair_inject option.inject)

lemma compile_transitions_loop_sources:
  "compile_transitions_loop h m qs q qn qpbl sts pushed = Inr trs \<Longrightarrow>
   \<forall>ot \<in> set sts. \<exists>t dqi dq. ot = Some t \<and> map_of m (st_destination t) = Some (dqi, dq) \<and>
      qn < qi_index dqi"
proof (induction sts arbitrary: pushed)
  case Nil
  then show ?case by simp
next
  case (Cons ot rest)
  from Cons.prems obtain t dqi dq pushed' where
    ot: "ot = Some t" and d: "map_of m (st_destination t) = Some (dqi, dq)"
    and lt: "qn < qi_index dqi"
    and rec: "compile_transitions_loop h m qs q qn qpbl rest pushed' = Inr trs"
    by (auto simp: Let_def split: option.splits if_splits sum.splits prod.splits)
  from Cons.IH [OF rec] ot d lt show ?case by simp
qed

text \<open>
  Claim C5. In the questionnaire that \<open>compile\<close> returns, every transition of the question at
  position \<open>i\<close> has its destination inside the questionnaire, at a position strictly after
  \<open>i\<close>, and the destination is another question (its label differs). And transitions are
  rejected otherwise: when \<open>compile_transitions\<close> accepts the source transitions of a
  question, every one of them names the label of a question of the map whose index is
  strictly greater than the index of the question.
\<close>

theorem compiled_transitions_forward:
  "(compile h tqs src = Inr (qq, ql) \<longrightarrow>
      (\<forall>i < length (questions qq). \<forall>t \<in> set (transitions (questions qq ! i)).
          i < destination t \<and> destination t < length (questions qq) \<and>
          label (questions qq ! i) \<noteq> label (questions qq ! destination t))) \<and>
   (compile_transitions h m qqi qs q sq = Inr trs \<and> sq_transitions sq \<noteq> [] \<longrightarrow>
      (\<forall>ot \<in> set (sq_transitions sq). \<exists>t dqi dq. ot = Some t \<and>
          map_of m (st_destination t) = Some (dqi, dq) \<and> qi_index qqi < qi_index dqi))"
proof (intro conjI impI)
  assume c: "compile h tqs src = Inr (qq, ql)"
  let ?init = "\<lparr>fp_questionnaire = make_questionnaire,
                 fp_localization = make_questionnaire_localization (sqq_language src),
                 fp_map = [], fp_loop_nest = [], fp_qn = 0\<rparr>"
  from c obtain st where fp: "first_pass_loop tqs ?init (sqq_questions src) = Inr st"
    by (auto simp: compile_def split: if_splits sum.splits)
  from c fp obtain qs' where
    sp: "second_pass_loop h (fp_map st) (questions (fp_questionnaire st)) 0 (sqq_questions src) = Inr qs'"
    and qq: "questions qq = qs'"
    by (auto simp: compile_def split: if_splits sum.splits)
  have "first_pass_inv ?init"
    by (simp add: first_pass_inv_def make_questionnaire_def map_ok_def labels_ok_def)
  from first_pass_loop_inv [OF this fp] have inv: "first_pass_inv st" .
  from first_pass_loop_count [OF fp] have n: "fp_qn st = length (sqq_questions src)" by simp
  let ?qs = "questions (fp_questionnaire st)"
  from inv have len: "fp_qn st = length ?qs" and mok: "map_ok (fp_map st) (length ?qs)"
    and lok: "labels_ok (fp_map st) ?qs" and tr: "\<forall>q \<in> set ?qs. transitions q = []"
    by (auto simp: first_pass_inv_def)
  from tr have f0: "forward_upto ?qs 0" by (simp add: forward_upto_def)
  from second_pass_loop_forward [OF mok lok f0 sp] n len
  have l: "length qs' = length ?qs" and f: "forward_upto qs' (length qs')" and lo: "labels_ok (fp_map st) qs'"
    by simp_all
  show "\<forall>i < length (questions qq). \<forall>t \<in> set (transitions (questions qq ! i)).
          i < destination t \<and> destination t < length (questions qq) \<and>
          label (questions qq ! i) \<noteq> label (questions qq ! destination t)"
  proof (intro allI impI ballI)
    fix i t
    assume i: "i < length (questions qq)" and t: "t \<in> set (transitions (questions qq ! i))"
    with f qq have d: "i < destination t \<and> destination t < length qs'"
      by (simp add: forward_upto_def)
    with labels_ok_distinct [OF lo, of i "destination t"] i qq
    show "i < destination t \<and> destination t < length (questions qq) \<and>
          label (questions qq ! i) \<noteq> label (questions qq ! destination t)"
      by simp
  qed
next
  assume a: "compile_transitions h m qqi qs q sq = Inr trs \<and> sq_transitions sq \<noteq> []"
  then have "compile_transitions_loop h m qs q (qi_index qqi) (get_parent_begin_loop qqi)
      (sq_transitions sq) [] = Inr trs"
    by (auto simp: compile_transitions_def split: option.splits if_splits)
  from compile_transitions_loop_sources [OF this]
  show "\<forall>ot \<in> set (sq_transitions sq). \<exists>t dqi dq. ot = Some t \<and>
          map_of m (st_destination t) = Some (dqi, dq) \<and> qi_index qqi < qi_index dqi" .
qed

text \<open>
  Scenario S2: the transitions of its first question go to questions 2 and 1 of three, and
  its source transitions name \<open>q3\<close> and \<open>q2\<close>, of indexes 2 and 1.
\<close>

theorem compiled_transitions_forward_witness:
  "compile echo_host no_templates scenario_s2 = Inr (s2_questionnaire, s2_localization) \<and>
   map destination (transitions (questions s2_questionnaire ! 0)) = [2, 1] \<and>
   length (questions s2_questionnaire) = 3 \<and>
   label (questions s2_questionnaire ! 0) \<noteq> label (questions s2_questionnaire ! 2) \<and>
   compile_transitions echo_host s2_map (top_level_info 0) s2_first_pass_questions 0
     (the (hd (sqq_questions scenario_s2))) = Inr s2_transitions \<and>
   sq_transitions (the (hd (sqq_questions scenario_s2))) \<noteq> [] \<and>
   map_of s2_map ''q3'' = Some (top_level_info 2, 2) \<and>
   qi_index (top_level_info 0) < qi_index (top_level_info 2)"
  using compiled_transitions_forward [of echo_host no_templates scenario_s2 s2_questionnaire
      s2_localization s2_map "top_level_info 0" s2_first_pass_questions 0
      "the (hd (sqq_questions scenario_s2))" s2_transitions]
    s2_compiles s2_transitions_compile
  by (simp add: s2_questionnaire_def s2_transitions_def s2_map_def top_level_info_def
      scenario_s2_def)

text \<open>
  Claim C4 asks that compilation fail unless the last transition is a catch-all, with empty
  condition and empty code. The code evaluated on a question whose last source transition
  has an empty condition and the code \<open>false\<close>: the questionnaire compiles, the last
  compiled transition of the question has a condition, and with the first condition false
  too \<open>run_transitions\<close> falls through all transitions to \<open>internal_error\<close>.
\<close>

theorem last_transition_with_code_accepted:
  "compile echo_host no_templates code_in_last_transition = Inr (c4_questionnaire, s2_localization) \<and>
   \<not> condition_is_empty (last (transitions (questions c4_questionnaire ! 0))) \<and>
   run_transitions echo_host (questions c4_questionnaire) empty_stack
     (questions c4_questionnaire ! 0) = Inl internal_error"
  by code_simp

text \<open>
  Claim C3 as the specification states it asks that a parameter of a transition condition
  that names the question itself be rejected. Scenario S2 compiles, and the first transition
  of its question 0 has question 0 as parameter.
\<close>

theorem transition_parameter_self_counterexample:
  "compile echo_host no_templates scenario_s2 = Inr (s2_questionnaire, s2_localization) \<and>
   map fn_parameters (List.map_filter condition (transitions (questions s2_questionnaire ! 0)))
     = [[0], []]"
  by code_simp

lemma parameter_error_step:
  "compile_function_parameters m qi (par # pars) =
     (case parameter_error m qi par of
        Some e \<Rightarrow> Inl e
      | None \<Rightarrow>
          (case compile_function_parameters m qi pars of
             Inl e \<Rightarrow> Inl e
           | Inr ps \<Rightarrow> Inr (question_of m par # ps)))"
  by (auto simp: parameter_error_def question_of_def split: option.splits sum.splits)

lemma compile_function_parameters_ok:
  "\<forall>par \<in> set pars. parameter_error m qi par = None \<Longrightarrow>
   compile_function_parameters m qi pars = Inr (map (question_of m) pars)"
  by (induction pars) (simp_all add: parameter_error_step del: compile_function_parameters.simps(2))

lemma compile_function_parameters_first_error:
  "\<forall>x \<in> set pre. parameter_error m qi x = None \<Longrightarrow> parameter_error m qi par = Some e \<Longrightarrow>
   compile_function_parameters m qi (pre @ par # post) = Inl e"
  by (induction pre) (simp_all add: parameter_error_step del: compile_function_parameters.simps(2))

lemma first_parameter_error:
  "(\<forall>x \<in> set pars. parameter_error m qi x = None) \<or>
   (\<exists>pre par post e. pars = pre @ par # post \<and> (\<forall>x \<in> set pre. parameter_error m qi x = None) \<and>
      parameter_error m qi par = Some e)"
proof (induction pars)
  case Nil
  then show ?case by simp
next
  case (Cons a pars)
  show ?case
  proof (cases "parameter_error m qi a")
    case None
    from Cons.IH show ?thesis
    proof
      assume "\<forall>x \<in> set pars. parameter_error m qi x = None"
      with None show ?thesis by simp
    next
      assume "\<exists>pre par post e. pars = pre @ par # post \<and>
          (\<forall>x \<in> set pre. parameter_error m qi x = None) \<and> parameter_error m qi par = Some e"
      then obtain pre par post e where "pars = pre @ par # post"
        "\<forall>x \<in> set pre. parameter_error m qi x = None" "parameter_error m qi par = Some e" by blast
      with None have "a # pars = (a # pre) @ par # post \<and>
          (\<forall>x \<in> set (a # pre). parameter_error m qi x = None) \<and> parameter_error m qi par = Some e"
        by simp
      then show ?thesis by blast
    qed
  next
    case (Some e)
    then have "a # pars = [] @ a # pars \<and> (\<forall>x \<in> set []. parameter_error m qi x = None) \<and>
        parameter_error m qi a = Some e" by simp
    then show ?thesis by blast
  qed
qed

lemma compile_function_parameters_Inr:
  "compile_function_parameters m qi pars = Inr ps \<longleftrightarrow>
     (\<forall>par \<in> set pars. parameter_error m qi par = None) \<and> ps = map (question_of m) pars"
  using first_parameter_error [of pars m qi]
  by (auto simp: compile_function_parameters_ok compile_function_parameters_first_error)

lemma compile_function_parameters_Inl:
  "compile_function_parameters m qi pars = Inl e \<longleftrightarrow>
     (\<exists>pre par post. pars = pre @ par # post \<and> (\<forall>x \<in> set pre. parameter_error m qi x = None) \<and>
        parameter_error m qi par = Some e)"
proof
  assume l: "compile_function_parameters m qi pars = Inl e"
  from first_parameter_error [of pars m qi]
  show "\<exists>pre par post. pars = pre @ par # post \<and> (\<forall>x \<in> set pre. parameter_error m qi x = None) \<and>
        parameter_error m qi par = Some e"
  proof
    assume "\<forall>x \<in> set pars. parameter_error m qi x = None"
    from compile_function_parameters_ok [OF this] l show ?thesis by simp
  next
    assume "\<exists>pre par post e. pars = pre @ par # post \<and>
        (\<forall>x \<in> set pre. parameter_error m qi x = None) \<and> parameter_error m qi par = Some e"
    then obtain pre par post e' where p: "pars = pre @ par # post"
      "\<forall>x \<in> set pre. parameter_error m qi x = None" "parameter_error m qi par = Some e'" by blast
    from compile_function_parameters_first_error [OF p(2,3), of post] p(1) l have "e' = e" by simp
    with p show ?thesis by blast
  qed
next
  assume "\<exists>pre par post. pars = pre @ par # post \<and> (\<forall>x \<in> set pre. parameter_error m qi x = None) \<and>
        parameter_error m qi par = Some e"
  then show "compile_function_parameters m qi pars = Inl e"
    by (auto simp: compile_function_parameters_first_error)
qed

lemma compile_transition_parameters_eq:
  "compile_transition_parameters m pars =
     (if \<forall>par \<in> set pars. map_of m par \<noteq> None then Inr (map (question_of m) pars)
      else Inl source_question_argument_does_not_exist)"
  by (induction pars) (auto simp: question_of_def split: option.splits)

text \<open>
  Claim C3, as the code has it. A text function compiles exactly when it has code and none
  of its parameters is in error, and its parameters are then the questions the labels
  denote; when it has code, it fails with an error exactly when that is the error of its
  first parameter in error. A parameter is not in error exactly when its label is in the
  map, the question it denotes has a strictly smaller index than the question that carries
  the function, and both have the same loop nest. The parameters of a transition condition
  are only looked up: they are accepted when every label is in the map, whatever question
  it denotes, and refused with \<open>source_question_argument_does_not_exist\<close> otherwise.
\<close>

theorem function_parameter_checks:
  "(source_function_compile m qi f = Inr func \<longleftrightarrow>
      src_code f \<noteq> [] \<and> (\<forall>par \<in> set (src_parameters f). parameter_error m qi par = None) \<and>
      func = \<lparr>fn_parameters = map (question_of m) (src_parameters f), fn_code = src_code f\<rparr>) \<and>
   (src_code f \<noteq> [] \<longrightarrow>
      (source_function_compile m qi f = Inl e \<longleftrightarrow>
         (\<exists>pre par post. src_parameters f = pre @ par # post \<and>
            (\<forall>x \<in> set pre. parameter_error m qi x = None) \<and> parameter_error m qi par = Some e))) \<and>
   (parameter_error m qi par = None \<longleftrightarrow>
      (\<exists>pqi p. map_of m par = Some (pqi, p) \<and> qi_index pqi < qi_index qi \<and>
         qi_loop_nest pqi = qi_loop_nest qi)) \<and>
   compile_transition_parameters m pars =
     (if \<forall>par \<in> set pars. map_of m par \<noteq> None then Inr (map (question_of m) pars)
      else Inl source_question_argument_does_not_exist)"
proof (intro conjI)
  show "source_function_compile m qi f = Inr func \<longleftrightarrow>
      src_code f \<noteq> [] \<and> (\<forall>par \<in> set (src_parameters f). parameter_error m qi par = None) \<and>
      func = \<lparr>fn_parameters = map (question_of m) (src_parameters f), fn_code = src_code f\<rparr>"
  proof (cases "compile_function_parameters m qi (src_parameters f)")
    case (Inl e')
    with compile_function_parameters_Inr [of m qi "src_parameters f"] show ?thesis
      by (auto simp: source_function_compile_def)
  next
    case (Inr ps)
    with compile_function_parameters_Inr [of m qi "src_parameters f" ps] show ?thesis
      by (auto simp: source_function_compile_def)
  qed
  show "src_code f \<noteq> [] \<longrightarrow>
      (source_function_compile m qi f = Inl e \<longleftrightarrow>
         (\<exists>pre par post. src_parameters f = pre @ par # post \<and>
            (\<forall>x \<in> set pre. parameter_error m qi x = None) \<and> parameter_error m qi par = Some e))"
  proof
    assume "src_code f \<noteq> []"
    then have "source_function_compile m qi f = Inl e \<longleftrightarrow>
        compile_function_parameters m qi (src_parameters f) = Inl e"
      by (cases "compile_function_parameters m qi (src_parameters f)")
         (simp_all add: source_function_compile_def)
    then show "source_function_compile m qi f = Inl e \<longleftrightarrow>
         (\<exists>pre par post. src_parameters f = pre @ par # post \<and>
            (\<forall>x \<in> set pre. parameter_error m qi x = None) \<and> parameter_error m qi par = Some e)"
      by (simp only: compile_function_parameters_Inl)
  qed
  show "parameter_error m qi par = None \<longleftrightarrow>
      (\<exists>pqi p. map_of m par = Some (pqi, p) \<and> qi_index pqi < qi_index qi \<and>
         qi_loop_nest pqi = qi_loop_nest qi)"
    by (auto simp: parameter_error_def split: option.splits)
  show "compile_transition_parameters m pars =
     (if \<forall>par \<in> set pars. map_of m par \<noteq> None then Inr (map (question_of m) pars)
      else Inl source_question_argument_does_not_exist)"
    by (rule compile_transition_parameters_eq)
qed

text \<open>
  On the map of scenario S2, for a text function of \<open>q3\<close>: the parameter \<open>q1\<close> is accepted, a
  second parameter \<open>q3\<close> is refused as the question itself; as parameter of a transition
  condition \<open>q3\<close> is accepted.
\<close>

theorem function_parameter_checks_witness:
  "source_function_compile s2_map (top_level_info 2) \<lparr>src_parameters = [''q1''], src_code = ''f''\<rparr>
     = Inr \<lparr>fn_parameters = [0], fn_code = ''f''\<rparr> \<and>
   source_function_compile s2_map (top_level_info 2)
       \<lparr>src_parameters = [''q1'', ''q3''], src_code = ''f''\<rparr>
     = Inl function_parameter_refers_to_self \<and>
   parameter_error s2_map (top_level_info 2) ''q1'' = None \<and>
   compile_transition_parameters s2_map [''q3''] = Inr [2]"
proof -
  have ok: "parameter_error s2_map (top_level_info 2) ''q1'' = None"
    by (simp add: parameter_error_def s2_map_def top_level_info_def)
  have self: "parameter_error s2_map (top_level_info 2) ''q3'' = Some function_parameter_refers_to_self"
    by (simp add: parameter_error_def s2_map_def top_level_info_def)
  have q: "question_of s2_map ''q1'' = 0" "question_of s2_map ''q3'' = 2"
    by (simp_all add: question_of_def s2_map_def)
  have split: "\<exists>pre par post. [''q1'', ''q3''] = pre @ par # post \<and>
      (\<forall>x \<in> set pre. parameter_error s2_map (top_level_info 2) x = None) \<and>
      parameter_error s2_map (top_level_info 2) par = Some function_parameter_refers_to_self"
  proof -
    have "[''q1'', ''q3''] = [''q1''] @ ''q3'' # [] \<and>
      (\<forall>x \<in> set [''q1'']. parameter_error s2_map (top_level_info 2) x = None) \<and>
      parameter_error s2_map (top_level_info 2) ''q3'' = Some function_parameter_refers_to_self"
      using ok self by simp
    then show ?thesis by blast
  qed
  have m: "map_of s2_map ''q3'' \<noteq> None" by (simp add: s2_map_def)
  show ?thesis
    using function_parameter_checks [of s2_map "top_level_info 2"
        "\<lparr>src_parameters = [''q1''], src_code = ''f''\<rparr>" "\<lparr>fn_parameters = [0], fn_code = ''f''\<rparr>"
        function_parameter_refers_to_self "''q1''" "[''q3'']"]
      function_parameter_checks [of s2_map "top_level_info 2"
        "\<lparr>src_parameters = [''q1'', ''q3''], src_code = ''f''\<rparr>" "\<lparr>fn_parameters = [0], fn_code = ''f''\<rparr>"
        function_parameter_refers_to_self "''q1''" "[''q3'']"]
      ok self q split m
    by simp
qed

section \<open>Loops in the interview\<close>

text \<open>
  The questionnaires with a loop compile, and the interview on the one whose operand has two
  elements goes through the loop twice: after the start and three answers its history is
  \<open>two_iterations\<close> and its next question is \<open>q5\<close>.
\<close>

lemma loop_source_compiles:
  "compile loop_host no_templates (loop_source ''R=[1,2]'') =
     Inr (loop_questionnaire ''R=[1,2]'', loop_localization 0)"
  by code_simp

lemma loop_source_compiles_empty:
  "compile loop_host no_templates (loop_source ''R=[]'') =
     Inr (loop_questionnaire ''R=[]'', loop_localization 0)"
  by code_simp

lemma loop_interview_starts:
  "start empty_library (loop_questionnaire ''R=[1,2]'') (Some (loop_localization 0)) new_interview 0 =
     Inr (ongoing_interview [] 0, loop_localization 7)"
  by code_simp

lemma first_answer_enters_loop:
  "answer_srv 3 loop_host empty_library (loop_questions ''R=[1,2]'') (loop_localization 7)
     (ongoing_interview [] 0) (answer_input_payload ''2'' '''') 1 =
   Some (Inr (ongoing_interview (take 2 two_iterations) 2, localized ''q3'' ''Which one?''))"
  by code_simp

lemma second_answer_iterates:
  "answer_srv 3 loop_host empty_library (loop_questions ''R=[1,2]'') (loop_localization 7)
     (ongoing_interview (take 2 two_iterations) 2) (answer_input_payload ''a'' '''') 2 =
   Some (Inr (ongoing_interview (take 4 two_iterations) 2, localized ''q3'' ''Which one?''))"
  by code_simp

lemma third_answer_leaves_loop:
  "answer_srv 3 loop_host empty_library (loop_questions ''R=[1,2]'') (loop_localization 7)
     (ongoing_interview (take 4 two_iterations) 2) (answer_input_payload ''b'' '''') 3 =
   Some (Inr (ongoing_interview two_iterations 4, localized ''q5'' ''Anything else?''))"
  by code_simp

lemma stack_after_q1_answer:
  "find_answer stack_after_q1 0 = Some (input_answer 1 0 ''2'')"
  by (simp add: find_answer_def stack_after_q1_def replace_answer_def empty_stack_def
        input_answer_def loop_question_localization_def)

lemma empty_operand_first_value:
  "calculate_loop_variable_value loop_host (loop_questions ''R=[]'') stack_after_q1 0
     (begin_loop_operand (loop_questions ''R=[]'') 1) (input_answer 1 0 ''2'') 0 = Inr JNull"
  by code_simp

lemma two_operand_first_value:
  "calculate_loop_variable_value loop_host (loop_questions ''R=[1,2]'') stack_after_q1 0
     (begin_loop_operand (loop_questions ''R=[1,2]'') 1) (input_answer 1 0 ''2'') 0 = Inr (JNum 1)"
  by code_simp

lemma two_operand:
  "compute_loop_operand loop_host (loop_questions ''R=[1,2]'') stack_after_q1 0
     (begin_loop_operand (loop_questions ''R=[1,2]'') 1) (input_answer 1 0 ''2'') =
   Inr (JArr [JNum 1, JNum 2])"
  by code_simp

lemma two_operand_frame:
  "stack_process_begin_loop_with loop_host (loop_questions ''R=[1,2]'') 0 stack_after_q1 1
     (input_answer 1 0 ''2'') = Inr (stack_after_q1\<lparr>ts_vector := [first_frame]\<rparr>)"
proof -
  have "ts_vector stack_after_q1 = []"
    by (simp add: stack_after_q1_def replace_answer_def empty_stack_def)
  with two_operand show ?thesis
    by (simp add: stack_process_begin_loop_with_def make_stack_frame_def first_frame_def)
qed

lemma loop_operand_question:
  "begin_loop_operand_question (loop_questions opnd) 1 = Some 0"
  by (simp add: begin_loop_operand_question_def loop_questions_def)

lemma empty_loop_matching_end:
  "find_matching_end_loop (loop_questions ''R=[]'') 1 = Inr (Some 3)"
  by code_simp

lemma loop_transitions:
  "run_transitions loop_host (loop_questions opnd) ts (loop_questions opnd ! 3) = Inr 4"
  "run_transitions loop_host (loop_questions opnd) ts (loop_questions opnd ! 1) = Inr 2"
  by (simp_all add: run_transitions_def transition_run_def loop_questions_def)

lemma loop_question_types:
  "get_loop_type (loop_questions opnd ! 4) = regular"
  "supports_localization (loop_questions opnd ! 4)"
  "get_loop_type (loop_questions opnd ! 2) = regular"
  "supports_localization (loop_questions opnd ! 2)"
  by (simp_all add: loop_questions_def loop_input_def)

text \<open>
  An end-loop entry that follows no begin-loop entry cannot be replayed: \<^verbatim>\<open>calculate\<close> would
  process it on a stack without a frame.
\<close>

lemma end_loop_entry_needs_frame:
  "calculate loop_host (loop_questions ''R=[]'') 0
     [entry_answer (input_answer 1 0 ''2''), entry_end_loop 3] empty_stack
     [entry_answer (input_answer 1 0 ''2''), entry_end_loop 3] = Inl undefined_behaviour"
  by (simp add: process_entry_def stack_process_end_loop_def replace_answer_def empty_stack_def)

text \<open>
  Claim C1 asks that the interpreter, when it skips a loop, push an end-loop entry on the
  history before it runs the transitions of the matching end loop. The code evaluated on the
  questionnaire whose operand is the empty array: the first value of the loop variable is
  null, and after the answer to \<open>q1\<close> the history holds that answer only, with \<open>q5\<close> as the next
  question.
\<close>

theorem skipped_loop_adds_no_entry:
  "calculate_loop_variable_value loop_host (loop_questions ''R=[]'') stack_after_q1 0 ''R=[]''
     (input_answer 1 0 ''2'') 0 = Inr JNull \<and>
   answer_srv 3 loop_host empty_library (loop_questions ''R=[]'') (loop_localization 7)
     (ongoing_interview [] 0) (answer_input_payload ''2'' '''') 1 =
   Some (Inr (ongoing_interview [entry_answer (input_answer 1 0 ''2'')] 4,
              localized ''q5'' ''Anything else?''))"
  by code_simp

text \<open>
  Claim C1, as the code has it, for a begin loop \<open>qbl\<close> on the question \<open>oq\<close>. When the stack
  has no answer to \<open>oq\<close>, or the first value of the loop variable is null, the search goes on
  from the destination of the transitions of the matching end loop with the history and the
  stack as they were: no entry is pushed. Otherwise the stack is the one
  \<^verbatim>\<open>the_stack::process_begin_loop\<close> leaves, which is the same stack when its innermost frame
  already belongs to \<open>qbl\<close> and has one more frame, of index 0, when it does not; a begin-loop
  entry with the operand answer and the index of the innermost frame is pushed on the
  history, and the search goes on from the destination of the transitions of \<open>qbl\<close>.
\<close>

theorem begin_loop_skips_or_enters:
  "begin_loop_operand_question qs qbl = Some oq \<Longrightarrow>
   ((find_answer ts oq = None \<or>
     (\<exists>loa. find_answer ts oq = Some loa \<and>
        calculate_loop_variable_value h qs ts lang (begin_loop_operand qs qbl) loa 0 = Inr JNull)) \<and>
    find_matching_end_loop qs qbl = Inr (Some qel) \<and>
    run_transitions h qs ts (qs ! qel) = Inr q \<longrightarrow>
    process_begin_loop (Suc n) h qs lang hist ts qbl =
      (case get_loop_type (qs ! q) of
         regular \<Rightarrow> calculate_new_next_question_from n h qs lang hist ts q
       | begin_loop \<Rightarrow> process_begin_loop n h qs lang hist ts q
       | end_loop \<Rightarrow> process_end_loop n h qs lang hist ts q)) \<and>
   (find_answer ts oq = Some a \<and>
    calculate_loop_variable_value h qs ts lang (begin_loop_operand qs qbl) a 0 = Inr v \<and>
    v \<noteq> JNull \<and>
    stack_process_begin_loop_with h qs lang ts qbl a = Inr ts' \<and>
    run_transitions h qs ts' (qs ! qbl) = Inr q' \<longrightarrow>
    process_begin_loop (Suc n) h qs lang hist ts qbl =
      (if get_loop_type (qs ! q') = end_loop
       then process_end_loop n h qs lang
              (hist @ [entry_begin_loop qbl (a_id a) (get_index ts')]) ts' q'
       else calculate_new_next_question_from n h qs lang
              (hist @ [entry_begin_loop qbl (a_id a) (get_index ts')]) ts' q') \<and>
    (if ts_vector ts \<noteq> [] \<and> sf_question_begin_loop (last (ts_vector ts)) = qbl then ts' = ts
     else butlast (ts_vector ts') = ts_vector ts \<and> get_index ts' = 0 \<and>
          sf_question_begin_loop (last (ts_vector ts')) = qbl \<and>
          sf_loop_operand_answer (last (ts_vector ts')) = a))"
proof (intro conjI impI)
  assume oq: "begin_loop_operand_question qs qbl = Some oq"
  {
    assume skip: "(find_answer ts oq = None \<or>
       (\<exists>loa. find_answer ts oq = Some loa \<and>
          calculate_loop_variable_value h qs ts lang (begin_loop_operand qs qbl) loa 0 = Inr JNull)) \<and>
      find_matching_end_loop qs qbl = Inr (Some qel) \<and>
      run_transitions h qs ts (qs ! qel) = Inr q"
    then have "stack_process_begin_loop h qs lang ts qbl = Inr (None, ts)"
      using oq by (auto simp add: stack_process_begin_loop_def)
    with skip show "process_begin_loop (Suc n) h qs lang hist ts qbl =
      (case get_loop_type (qs ! q) of
         regular \<Rightarrow> calculate_new_next_question_from n h qs lang hist ts q
       | begin_loop \<Rightarrow> process_begin_loop n h qs lang hist ts q
       | end_loop \<Rightarrow> process_end_loop n h qs lang hist ts q)"
      by simp
  }
  {
    assume enter: "find_answer ts oq = Some a \<and>
      calculate_loop_variable_value h qs ts lang (begin_loop_operand qs qbl) a 0 = Inr v \<and>
      v \<noteq> JNull \<and>
      stack_process_begin_loop_with h qs lang ts qbl a = Inr ts' \<and>
      run_transitions h qs ts' (qs ! qbl) = Inr q'"
    then have "stack_process_begin_loop h qs lang ts qbl = Inr (Some a, ts')"
      using oq by (simp add: stack_process_begin_loop_def)
    with enter show "process_begin_loop (Suc n) h qs lang hist ts qbl =
      (if get_loop_type (qs ! q') = end_loop
       then process_end_loop n h qs lang
              (hist @ [entry_begin_loop qbl (a_id a) (get_index ts')]) ts' q'
       else calculate_new_next_question_from n h qs lang
              (hist @ [entry_begin_loop qbl (a_id a) (get_index ts')]) ts' q')"
      by (simp add: Let_def)
    from enter have w: "stack_process_begin_loop_with h qs lang ts qbl a = Inr ts'" by simp
    show "if ts_vector ts \<noteq> [] \<and> sf_question_begin_loop (last (ts_vector ts)) = qbl then ts' = ts
     else butlast (ts_vector ts') = ts_vector ts \<and> get_index ts' = 0 \<and>
          sf_question_begin_loop (last (ts_vector ts')) = qbl \<and>
          sf_loop_operand_answer (last (ts_vector ts')) = a"
      using w
      by (auto simp add: stack_process_begin_loop_with_def make_stack_frame_def get_index_def
               split: if_splits sum.splits)
  }
qed

text \<open>
  Both cases on the questionnaires with a loop, on the stack that holds the answer to \<open>q1\<close>:
  the operand \<^verbatim>\<open>R=[]\<close> is skipped and \<open>q5\<close> is next with the history unchanged; the operand
  \<^verbatim>\<open>R=[1,2]\<close> is entered, the frame has the index 0, and \<open>q3\<close> is next after a begin-loop entry.
\<close>

theorem begin_loop_skips_or_enters_witness:
  "begin_loop_operand_question (loop_questions ''R=[]'') 1 = Some 0 \<and>
   find_answer stack_after_q1 0 = Some (input_answer 1 0 ''2'') \<and>
   calculate_loop_variable_value loop_host (loop_questions ''R=[]'') stack_after_q1 0
     (begin_loop_operand (loop_questions ''R=[]'') 1) (input_answer 1 0 ''2'') 0 = Inr JNull \<and>
   find_matching_end_loop (loop_questions ''R=[]'') 1 = Inr (Some 3) \<and>
   run_transitions loop_host (loop_questions ''R=[]'') stack_after_q1 (loop_questions ''R=[]'' ! 3)
     = Inr 4 \<and>
   process_begin_loop (Suc 1) loop_host (loop_questions ''R=[]'') 0
     [entry_answer (input_answer 1 0 ''2'')] stack_after_q1 1 =
     Some (Inr (4, [entry_answer (input_answer 1 0 ''2'')], stack_after_q1)) \<and>
   calculate_loop_variable_value loop_host (loop_questions ''R=[1,2]'') stack_after_q1 0
     (begin_loop_operand (loop_questions ''R=[1,2]'') 1) (input_answer 1 0 ''2'') 0 = Inr (JNum 1) \<and>
   stack_process_begin_loop_with loop_host (loop_questions ''R=[1,2]'') 0 stack_after_q1 1
     (input_answer 1 0 ''2'') = Inr (stack_after_q1\<lparr>ts_vector := [first_frame]\<rparr>) \<and>
   process_begin_loop (Suc 1) loop_host (loop_questions ''R=[1,2]'') 0
     [entry_answer (input_answer 1 0 ''2'')] stack_after_q1 1 =
     Some (Inr (2, [entry_answer (input_answer 1 0 ''2''), entry_begin_loop 1 1 0],
                stack_after_q1\<lparr>ts_vector := [first_frame]\<rparr>)) \<and>
   get_index (stack_after_q1\<lparr>ts_vector := [first_frame]\<rparr>) = 0"
proof -
  let ?a = "input_answer 1 0 ''2''"
  let ?ts = "stack_after_q1\<lparr>ts_vector := [first_frame]\<rparr>"
  have skipped:
    "process_begin_loop (Suc 1) loop_host (loop_questions ''R=[]'') 0 [entry_answer ?a]
       stack_after_q1 1 =
     (case get_loop_type (loop_questions ''R=[]'' ! 4) of
        regular \<Rightarrow> calculate_new_next_question_from 1 loop_host (loop_questions ''R=[]'') 0
                     [entry_answer ?a] stack_after_q1 4
      | begin_loop \<Rightarrow> process_begin_loop 1 loop_host (loop_questions ''R=[]'') 0
                        [entry_answer ?a] stack_after_q1 4
      | end_loop \<Rightarrow> process_end_loop 1 loop_host (loop_questions ''R=[]'') 0
                      [entry_answer ?a] stack_after_q1 4)"
    apply (rule begin_loop_skips_or_enters [where oq = 0 and qel = 3 and a = ?a and v = JNull
          and ts' = stack_after_q1 and q' = 2, THEN conjunct1, THEN mp])
     apply (rule loop_operand_question)
    apply (intro conjI disjI2 exI [of _ ?a])
       apply (rule stack_after_q1_answer)
      apply (rule empty_operand_first_value)
     apply (rule empty_loop_matching_end)
    apply (rule loop_transitions)
    done
  have entered:
    "process_begin_loop (Suc 1) loop_host (loop_questions ''R=[1,2]'') 0 [entry_answer ?a]
       stack_after_q1 1 =
     (if get_loop_type (loop_questions ''R=[1,2]'' ! 2) = end_loop
      then process_end_loop 1 loop_host (loop_questions ''R=[1,2]'') 0
             ([entry_answer ?a] @ [entry_begin_loop 1 (a_id ?a) (get_index ?ts)]) ?ts 2
      else calculate_new_next_question_from 1 loop_host (loop_questions ''R=[1,2]'') 0
             ([entry_answer ?a] @ [entry_begin_loop 1 (a_id ?a) (get_index ?ts)]) ?ts 2) \<and>
     (if ts_vector stack_after_q1 \<noteq> [] \<and>
         sf_question_begin_loop (last (ts_vector stack_after_q1)) = 1
      then ?ts = stack_after_q1
      else butlast (ts_vector ?ts) = ts_vector stack_after_q1 \<and> get_index ?ts = 0 \<and>
           sf_question_begin_loop (last (ts_vector ?ts)) = 1 \<and>
           sf_loop_operand_answer (last (ts_vector ?ts)) = ?a)"
    apply (rule begin_loop_skips_or_enters [where oq = 0 and qel = 3 and q = 4 and v = "JNum 1",
          THEN conjunct2, THEN mp])
     apply (rule loop_operand_question)
    apply (intro conjI)
        apply (rule stack_after_q1_answer)
       apply (rule two_operand_first_value)
      apply simp
     apply (rule two_operand_frame)
    apply (rule loop_transitions)
    done
  have index: "get_index ?ts = 0"
    by (simp add: get_index_def first_frame_def)
  have "process_begin_loop (Suc 1) loop_host (loop_questions ''R=[]'') 0 [entry_answer ?a]
          stack_after_q1 1 = Some (Inr (4, [entry_answer ?a], stack_after_q1))"
    by (simp only: skipped) (simp add: loop_questions_def loop_input_def)
  moreover have "process_begin_loop (Suc 1) loop_host (loop_questions ''R=[1,2]'') 0
      [entry_answer ?a] stack_after_q1 1 =
      Some (Inr (2, [entry_answer ?a, entry_begin_loop 1 1 0], ?ts))"
    by (simp only: entered [THEN conjunct1] index) (simp add: loop_questions_def loop_input_def input_answer_def)
  ultimately show ?thesis
    using loop_operand_question [of "''R=[]''"] stack_after_q1_answer empty_operand_first_value
      two_operand_first_value empty_loop_matching_end two_operand_frame
      loop_transitions(1) [of "''R=[]''" stack_after_q1] index
    by (intro conjI)
qed

section \<open>Revising an answer\<close>

text \<open>
  Claim C7 asks that revising an answer of an ongoing interview with an equivalent answer
  leave the history and the next question as they were. The code evaluated on the interview
  that went through the loop twice, where the first answer to \<open>q3\<close>, at index 2, is revised
  with the text it already has: the new answer is the previous one but for its identity,
  and the history loses the second iteration, its last two entries. After the first end-loop
  entry \<^verbatim>\<open>revise_answer\<close> runs the transitions of the end loop, which lead to \<open>q5\<close>, where the
  interpreter ran those of the begin loop, which lead to \<open>q3\<close>; the next entry is an answer to
  \<open>q3\<close>, so the history is resected up to an entry of \<open>q5\<close>, and there is none.
\<close>

theorem revise_equivalent_answer_drops_iteration:
  "make_answer (loop_questions ''R=[1,2]'') (answer_input_payload ''a'' '''')
     (a_localizations (input_answer 2 2 ''a'')) 4 [] 0 0 = Inr ((input_answer 2 2 ''a'')\<lparr>a_id := 4\<rparr>) \<and>
   two_iterations ! 2 = entry_answer (input_answer 2 2 ''a'') \<and>
   length two_iterations = 6 \<and>
   answer_revise_srv 3 loop_host empty_library (loop_questions ''R=[1,2]'') (loop_localization 7)
     (ongoing_interview two_iterations 4) 2 (answer_input_payload ''a'' '''') 4 =
   Some (Inr (ongoing_interview (take 4 two_iterations) 4, localized ''q5'' ''Anything else?''))"
  by code_simp

end
